theory Spec2Isabelle
  imports Main "HOL-Library.Word" "HOL-Library.Sublist"
begin

section \<open>The BrainFlow Python binding (board\_shim.py)\<close>

text \<open>
  The binding loads a native library once per process and wraps its eight exported
  functions: every wrapper calls the native function, compares the returned status with
  \<^verbatim>\<open>StreamExitCodes.STATUS_OK.value\<close> and raises \<^verbatim>\<open>BrainFlowError\<close> otherwise; the two data
  calls allocate numpy buffers, let the native function fill them and reshape the result.

  Conventions of the embedding.
  \<^item> Python integers are \<open>int\<close>. An argument declared \<^verbatim>\<open>ctypes.c_int\<close> reaches the native
    function as its signed 32-bit truncation (\<open>c_int\<close>: ctypes does no overflow check);
    arithmetic on \<^verbatim>\<open>numpy.int64\<close> scalars wraps at 64 bits (\<open>int64\<close>).
  \<^item> Exceptions are values of \<open>py_error\<close>; a method returns \<open>py_error + 'r\<close> together
    with the process state it leaves.
  \<^item> The native library is a parameter: a record of functions over its own state \<open>'s\<close>.
    A native function receives pointers to the numpy buffers; it can overwrite their
    elements but not change their length, so it returns the values it writes and the
    model stores them into the buffer (\<open>poke\<close>).
  \<^item> Sample values (float32 data, float64 timestamps) are elements of one type \<open>'a\<close>
    with a zero; the conversions between the two float types keep the value.
  \<^item> The process state carries a ghost trace of the native calls made, with the
    arguments the native function received and the status it returned.
  \<^item> Whether the shared library can be loaded, and which functions it exports, is part
    of the environment: \<^verbatim>\<open>LoadLibrary\<close> of a missing library raises OSError and the lookup
    of a missing export raises AttributeError.
  \<^item> Memory is not exhausted below numpy's own size limit.
\<close>

subsection \<open>Machine integers at the foreign-function boundary\<close>

definition c_int :: "int \<Rightarrow> int" where
  "c_int x = sint (word_of_int x :: 32 word)"

definition int64 :: "int \<Rightarrow> int" where
  "int64 x = sint (word_of_int x :: 64 word)"

subsection \<open>Exceptions and exit codes\<close>

datatype py_error =
    BrainFlowError string int   \<comment> \<open>detailed message, \<^verbatim>\<open>exit_code\<close>\<close>
  | ValueError
  | OSError                     \<comment> \<open>\<^verbatim>\<open>LoadLibrary\<close> cannot load the library\<close>
  | AttributeError
  | Exception string

text \<open>
  Modelled from the spec: \<^verbatim>\<open>brainflow/exit_codes.py\<close> (the enumeration \<^verbatim>\<open>StreamExitCodes\<close>)
  is not among the sources. The spec fixes only that the codes form a fixed enumeration of
  \<^verbatim>\<open>STATUS_OK\<close> plus one code per error kind and that zero means success, so the enumeration
  is a parameter: the list of its members (name, value) in definition order.
  \<^verbatim>\<open>StreamExitCodes.NAME.value\<close> looks a member up by name (a missing name is an
  AttributeError); \<^verbatim>\<open>StreamExitCodes (v).name\<close> looks the first member with value \<open>v\<close> up
  (no such member is a ValueError).
\<close>

type_synonym StreamExitCodes = "(string \<times> int) list"

definition member_value :: "StreamExitCodes \<Rightarrow> string \<Rightarrow> int option" where
  "member_value tab nm = map_of tab nm"

definition member_name :: "StreamExitCodes \<Rightarrow> int \<Rightarrow> string option" where
  "member_name tab v = map_option fst (find (\<lambda>m. snd m = v) tab)"

text \<open>The \<^verbatim>\<open>%d\<close> conversion of the message format.\<close>

definition digit_char :: "nat \<Rightarrow> char" where
  "digit_char d = ''0123456789'' ! d"

fun show_nat :: "nat \<Rightarrow> string" where
  "show_nat n = (if n < 10 then [digit_char n] else show_nat (n div 10) @ [digit_char (n mod 10)])"

definition show_int :: "int \<Rightarrow> string" where
  "show_int i = (if i < 0 then CHR ''-'' # show_nat (nat (- i)) else show_nat (nat i))"

text \<open>
  \<^verbatim>\<open>BrainFlowError.__init__\<close>: the detailed message is
  \<^verbatim>\<open>'%s:%d %s' % (StreamExitCodes (exit_code).name, exit_code, message)\<close>. The
  enumeration lookup runs inside the constructor, so for a code that is no member the
  \<^verbatim>\<open>raise BrainFlowError (...)\<close> statement raises ValueError instead.
\<close>

definition BrainFlowError_init :: "StreamExitCodes \<Rightarrow> string \<Rightarrow> int \<Rightarrow> py_error" where
  "BrainFlowError_init tab message exit_code =
     (case member_name tab exit_code of
        None \<Rightarrow> ValueError
      | Some nm \<Rightarrow> BrainFlowError (nm @ '':'' @ show_int exit_code @ '' '' @ message) exit_code)"

text \<open>
  The pattern every wrapper ends its native call with:
  \<^verbatim>\<open>if res != StreamExitCodes.STATUS_OK.value: raise BrainFlowError (message, res)\<close>.
\<close>

definition check_status :: "StreamExitCodes \<Rightarrow> string \<Rightarrow> int \<Rightarrow> py_error + unit" where
  "check_status tab message res =
     (case member_value tab ''STATUS_OK'' of
        None \<Rightarrow> Inl AttributeError
      | Some ok \<Rightarrow> if res \<noteq> ok then Inl (BrainFlowError_init tab message res) else Inr ())"

subsection \<open>The numpy operations the binding uses\<close>

text \<open>
  \<^verbatim>\<open>numpy.zeros (k)\<close>: a negative size is a ValueError; the array is first built with 8-byte
  elements, so a size whose byte count does not fit a signed 64-bit integer is refused,
  with a ValueError as well.
\<close>

definition np_zeros :: "int \<Rightarrow> py_error + ('a::zero) list" where
  "np_zeros k =
     (if k < 0 then Inl ValueError
      else if 2 ^ 60 \<le> k then Inl ValueError
      else Inr (replicate (nat k) 0))"

text \<open>The slice \<^verbatim>\<open>a[0:k]\<close>: a negative stop counts from the end; the stop is clipped.\<close>

definition slice0 :: "'a list \<Rightarrow> int \<Rightarrow> 'a list" where
  "slice0 xs k = (if k < 0 then take (nat (int (length xs) + k)) xs else take (nat k) xs)"

text \<open>A two-dimensional array: its shape and its elements in row-major order.\<close>

record 'a ndarray2 =
  nrows :: nat
  ncols :: nat
  flat :: "'a list"

text \<open>
  \<^verbatim>\<open>a.reshape (r, c)\<close> of a one-dimensional array, for the column count \<open>c \<ge> 0\<close> the binding
  passes: a negative \<open>r\<close> is the unknown dimension, inferred from the size; otherwise the
  sizes must agree.
\<close>

definition reshape :: "'a list \<Rightarrow> int \<Rightarrow> int \<Rightarrow> py_error + 'a ndarray2" where
  "reshape xs r c =
     (if r < 0 then
        (if c = 0 \<or> int (length xs) mod c \<noteq> 0 then Inl ValueError
         else Inr \<lparr>nrows = nat (int (length xs) div c), ncols = nat c, flat = xs\<rparr>)
      else if r * c = int (length xs) then Inr \<lparr>nrows = nat r, ncols = nat c, flat = xs\<rparr>
      else Inl ValueError)"

definition row :: "'a ndarray2 \<Rightarrow> nat \<Rightarrow> 'a list" where
  "row m i = take (ncols m) (drop (i * ncols m) (flat m))"

text \<open>
  \<^verbatim>\<open>numpy.column_stack ((m, t))\<close> of a two-dimensional \<open>m\<close> and a one-dimensional \<open>t\<close>: \<open>t\<close>
  becomes the last column; the row counts must agree.
\<close>

definition column_stack :: "'a ndarray2 \<Rightarrow> 'a list \<Rightarrow> py_error + 'a ndarray2" where
  "column_stack m t =
     (if nrows m \<noteq> length t then Inl ValueError
      else Inr \<lparr>nrows = nrows m, ncols = ncols m + 1,
                flat = concat (map (\<lambda>i. row m i @ [t ! i]) [0..<nrows m])\<rparr>)"

text \<open>
  What a native function leaves in a buffer it was handed: the values it writes, from the
  start of the buffer, as far as the buffer reaches.
\<close>

definition poke :: "'a list \<Rightarrow> 'a list \<Rightarrow> 'a list" where
  "poke buf written = take (length buf) written @ drop (length written) buf"

subsection \<open>The process: the singleton, the native library and its calls\<close>

datatype native_call =
    Prepare_session int string
  | Start_stream int
  | Stop_stream
  | Get_current_board_data int
  | Get_board_data int
  | Release_session
  | Get_board_data_count
  | Set_log_level int

text \<open>
  The native library: each exported function takes its arguments and the library's state
  and returns the status, the values written through each buffer pointer, and the new
  state.
\<close>

record ('s, 'a) native_lib =
  lib_prepare_session :: "int \<Rightarrow> string \<Rightarrow> 's \<Rightarrow> int \<times> 's"
  lib_start_stream :: "int \<Rightarrow> 's \<Rightarrow> int \<times> 's"
  lib_stop_stream :: "'s \<Rightarrow> int \<times> 's"
  lib_get_current_board_data :: "int \<Rightarrow> 's \<Rightarrow> (int \<times> 'a list \<times> 'a list \<times> int list) \<times> 's"
  lib_get_board_data :: "int \<Rightarrow> 's \<Rightarrow> (int \<times> 'a list \<times> 'a list) \<times> 's"
  lib_release_session :: "'s \<Rightarrow> int \<times> 's"
  lib_get_board_data_count :: "'s \<Rightarrow> (int \<times> int list) \<times> 's"
  lib_set_log_level :: "int \<Rightarrow> 's \<Rightarrow> int \<times> 's"

record environment =
  calcsize_P :: nat           \<comment> \<open>\<^verbatim>\<open>struct.calcsize ("P")\<close>: the bytes of a pointer\<close>
  platform_system :: string   \<comment> \<open>\<^verbatim>\<open>platform.system ()\<close>\<close>
  load_library :: "string \<Rightarrow> string list option"
    \<comment> \<open>\<^verbatim>\<open>ctypes.cdll.LoadLibrary\<close> of the path: \<open>None\<close> when it raises OSError, else the names the library exports\<close>

text \<open>
  The process state: the class attribute \<^verbatim>\<open>BoardControllerDLL.__instance\<close> (an object is
  identified by the number of library loads before its own), the library paths
  \<^verbatim>\<open>LoadLibrary\<close> has loaded so far, one entry per load, the state of the native library,
  and the trace of native calls.
\<close>

record 's process =
  dll_instance :: "nat option"
  loaded :: "string list"
  native :: 's
  trace :: "(native_call \<times> int) list"

definition initial_process :: "'s \<Rightarrow> 's process" where
  "initial_process s = \<lparr>dll_instance = None, loaded = [], native = s, trace = []\<rparr>"

definition dll_path :: "environment \<Rightarrow> string" where
  "dll_path env =
     (if platform_system env = ''Windows'' then ''lib'' @ [CHR 0x5C] @ ''BoardController.dll''
      else ''lib/libBoardController.so'')"

text \<open>The functions \<^verbatim>\<open>BoardControllerDLL.__init__\<close> looks up in the loaded library, in its order.\<close>

definition exported_functions :: "string list" where
  "exported_functions =
     [''prepare_session'', ''start_stream'', ''stop_stream'', ''get_current_board_data'',
      ''get_board_data'', ''stop_stream'', ''release_session'', ''get_board_data_count'',
      ''set_log_level'']"

text \<open>
  \<^verbatim>\<open>BoardControllerDLL.__init__\<close>: \<^verbatim>\<open>LoadLibrary\<close> raises OSError when the library cannot be
  loaded; once it is loaded, the first export that is missing raises AttributeError. In
  both cases no object is returned.
\<close>

definition BoardControllerDLL_init ::
  "environment \<Rightarrow> 's process \<Rightarrow> (py_error + nat) \<times> 's process" where
  "BoardControllerDLL_init env p =
     (case load_library env (dll_path env) of
        None \<Rightarrow> (Inl OSError, p)
      | Some names \<Rightarrow>
          if list_all (\<lambda>f. f \<in> set names) exported_functions
          then (Inr (length (loaded p)), p\<lparr>loaded := loaded p @ [dll_path env]\<rparr>)
          else (Inl AttributeError, p\<lparr>loaded := loaded p @ [dll_path env]\<rparr>))"

text \<open>
  \<^verbatim>\<open>get_instance\<close>: the class attribute is assigned only when the constructor returns, so
  after a constructor that raised the next call constructs, and loads, again.
\<close>

definition get_instance :: "environment \<Rightarrow> 's process \<Rightarrow> (py_error + nat) \<times> 's process" where
  "get_instance env p =
     (case dll_instance p of
        None \<Rightarrow>
          if calcsize_P env * 8 \<noteq> 64
          then (Inl (Exception ''You need 64-bit python to use this library''), p)
          else (case BoardControllerDLL_init env p of
                  (Inl e, p') \<Rightarrow> (Inl e, p')
                | (Inr obj, p') \<Rightarrow> (Inr obj, p'\<lparr>dll_instance := Some obj\<rparr>))
      | Some obj \<Rightarrow> (Inr obj, p))"

text \<open>
  \<^verbatim>\<open>BoardControllerDLL.get_instance ().f (args)\<close>: obtain the singleton, run the native
  function \<open>f\<close> on the library's state, and record the call.
\<close>

definition call_native ::
  "environment \<Rightarrow> ('s \<Rightarrow> 'r \<times> 's) \<Rightarrow> ('r \<Rightarrow> native_call \<times> int) \<Rightarrow> 's process
     \<Rightarrow> (py_error + 'r) \<times> 's process" where
  "call_native env f entry p =
     (case get_instance env p of
        (Inl e, p1) \<Rightarrow> (Inl e, p1)
      | (Inr obj, p1) \<Rightarrow>
          (case f (native p1) of
             (r, s') \<Rightarrow> (Inr r, p1\<lparr>native := s', trace := trace p1 @ [entry r]\<rparr>)))"

subsection \<open>BoardShim\<close>

definition CYTHON_board_id :: int where "CYTHON_board_id = 0"
definition CYTHON_fs_hz :: int where "CYTHON_fs_hz = 250"
definition CYTHON_num_eeg_channels :: int where "CYTHON_num_eeg_channels = 8"
definition CYTHON_package_length :: int where "CYTHON_package_length = 12"

text \<open>
  A board object: the fields \<^verbatim>\<open>BoardShim.__init__\<close> sets. The port name is kept as the string
  of its bytes (\<^verbatim>\<open>port_name.encode ()\<close> under Python 3 yields those bytes). The constructor
  touches no state of the process, which the model shows by returning it unchanged.
\<close>

record BoardShim =
  port_name :: string
  board_id :: int
  package_length :: int
  fs_hz :: int
  num_eeg_channels :: int

definition BoardShim_init ::
  "StreamExitCodes \<Rightarrow> int \<Rightarrow> string \<Rightarrow> 's process \<Rightarrow> (py_error + BoardShim) \<times> 's process" where
  "BoardShim_init tab bid port p =
     (if bid = CYTHON_board_id
      then (Inr \<lparr>port_name = port, board_id = bid, package_length = CYTHON_package_length,
                 fs_hz = CYTHON_fs_hz, num_eeg_channels = CYTHON_num_eeg_channels\<rparr>, p)
      else (case member_value tab ''UNSUPPORTED_BOARD_ERROR'' of
              None \<Rightarrow> (Inl AttributeError, p)
            | Some code \<Rightarrow> (Inl (BrainFlowError_init tab ''unsupported board type'' code), p)))"

definition set_level ::
  "StreamExitCodes \<Rightarrow> environment \<Rightarrow> ('s, 'a) native_lib \<Rightarrow> int \<Rightarrow> string \<Rightarrow> 's process
     \<Rightarrow> (py_error + unit) \<times> 's process" where
  "set_level tab env lib level message p =
     (case call_native env (lib_set_log_level lib (c_int level))
             (\<lambda>res. (Set_log_level (c_int level), res)) p of
        (Inl e, p1) \<Rightarrow> (Inl e, p1)
      | (Inr res, p1) \<Rightarrow> (check_status tab message res, p1))"

definition enable_board_logger ::
  "StreamExitCodes \<Rightarrow> environment \<Rightarrow> ('s, 'a) native_lib \<Rightarrow> 's process
     \<Rightarrow> (py_error + unit) \<times> 's process" where
  "enable_board_logger tab env lib p = set_level tab env lib 2 ''unable to enable logger'' p"

definition disable_board_logger ::
  "StreamExitCodes \<Rightarrow> environment \<Rightarrow> ('s, 'a) native_lib \<Rightarrow> 's process
     \<Rightarrow> (py_error + unit) \<times> 's process" where
  "disable_board_logger tab env lib p = set_level tab env lib 6 ''unable to disable logger'' p"

definition enable_dev_board_logger ::
  "StreamExitCodes \<Rightarrow> environment \<Rightarrow> ('s, 'a) native_lib \<Rightarrow> 's process
     \<Rightarrow> (py_error + unit) \<times> 's process" where
  "enable_dev_board_logger tab env lib p = set_level tab env lib 0 ''unable to enable logger'' p"

definition prepare_session ::
  "StreamExitCodes \<Rightarrow> environment \<Rightarrow> ('s, 'a) native_lib \<Rightarrow> BoardShim \<Rightarrow> 's process
     \<Rightarrow> (py_error + unit) \<times> 's process" where
  "prepare_session tab env lib self p =
     (case call_native env (lib_prepare_session lib (c_int (board_id self)) (port_name self))
             (\<lambda>res. (Prepare_session (c_int (board_id self)) (port_name self), res)) p of
        (Inl e, p1) \<Rightarrow> (Inl e, p1)
      | (Inr res, p1) \<Rightarrow> (check_status tab ''unable to prepare streaming session'' res, p1))"

definition start_stream ::
  "StreamExitCodes \<Rightarrow> environment \<Rightarrow> ('s, 'a) native_lib \<Rightarrow> BoardShim \<Rightarrow> int option \<Rightarrow> 's process
     \<Rightarrow> (py_error + unit) \<times> 's process" where
  "start_stream tab env lib self arg p =
     (let num_samples = (case arg of None \<Rightarrow> 3600 * 250 | Some n \<Rightarrow> n)
      in case call_native env (lib_start_stream lib (c_int num_samples))
                (\<lambda>res. (Start_stream (c_int num_samples), res)) p of
           (Inl e, p1) \<Rightarrow> (Inl e, p1)
         | (Inr res, p1) \<Rightarrow> (check_status tab ''unable to start streaming session'' res, p1))"

definition stop_stream ::
  "StreamExitCodes \<Rightarrow> environment \<Rightarrow> ('s, 'a) native_lib \<Rightarrow> BoardShim \<Rightarrow> 's process
     \<Rightarrow> (py_error + unit) \<times> 's process" where
  "stop_stream tab env lib self p =
     (case call_native env (lib_stop_stream lib) (\<lambda>res. (Stop_stream, res)) p of
        (Inl e, p1) \<Rightarrow> (Inl e, p1)
      | (Inr res, p1) \<Rightarrow> (check_status tab ''unable to stop streaming session'' res, p1))"

definition release_session ::
  "StreamExitCodes \<Rightarrow> environment \<Rightarrow> ('s, 'a) native_lib \<Rightarrow> BoardShim \<Rightarrow> 's process
     \<Rightarrow> (py_error + unit) \<times> 's process" where
  "release_session tab env lib self p =
     (case call_native env (lib_release_session lib) (\<lambda>res. (Release_session, res)) p of
        (Inl e, p1) \<Rightarrow> (Inl e, p1)
      | (Inr res, p1) \<Rightarrow> (check_status tab ''unable to release streaming session'' res, p1))"

text \<open>
  \<^verbatim>\<open>get_current_board_data\<close>: the three buffers are allocated before the singleton is
  asked for; a successful call returns \<open>Some\<close> table, the \<^verbatim>\<open>return None\<close> of the source is
  \<open>Inr None\<close>.
\<close>

definition get_current_board_data ::
  "StreamExitCodes \<Rightarrow> environment \<Rightarrow> ('s, 'a::zero) native_lib \<Rightarrow> BoardShim \<Rightarrow> int \<Rightarrow> 's process
     \<Rightarrow> (py_error + 'a ndarray2 option) \<times> 's process" where
  "get_current_board_data tab env lib self num_samples p =
     (case np_zeros (num_samples * package_length self) of
        Inl e \<Rightarrow> (Inl e, p)
      | Inr data_arr \<Rightarrow>
     (case np_zeros num_samples of
        Inl e \<Rightarrow> (Inl e, p)
      | Inr time_arr \<Rightarrow>
     (case np_zeros 1 of
        Inl e \<Rightarrow> (Inl e, p)
      | Inr current_size \<Rightarrow>
     (case call_native env (lib_get_current_board_data lib (c_int num_samples))
             (\<lambda>(res, dw, tw, cw). (Get_current_board_data (c_int num_samples), res)) p of
        (Inl e, p1) \<Rightarrow> (Inl e, p1)
      | (Inr (res, dw, tw, cw), p1) \<Rightarrow>
     (let data_arr = poke data_arr dw;
          time_arr = poke time_arr tw;
          current_size = poke current_size (map int64 cw)
      in case check_status tab ''unable to get current data'' res of
           Inl e \<Rightarrow> (Inl e, p1)
         | Inr u \<Rightarrow>
             if length current_size = 0 then (Inr None, p1)
             else
               (case reshape (slice0 data_arr (int64 (current_size ! 0 * package_length self)))
                       (current_size ! 0) (package_length self) of
                  Inl e \<Rightarrow> (Inl e, p1)
                | Inr m \<Rightarrow>
                    (case column_stack m (slice0 time_arr (current_size ! 0)) of
                       Inl e \<Rightarrow> (Inl e, p1)
                     | Inr table \<Rightarrow> (Inr (Some table), p1))))))))"

definition get_immediate_board_data ::
  "StreamExitCodes \<Rightarrow> environment \<Rightarrow> ('s, 'a::zero) native_lib \<Rightarrow> BoardShim \<Rightarrow> 's process
     \<Rightarrow> (py_error + 'a ndarray2 option) \<times> 's process" where
  "get_immediate_board_data tab env lib self p = get_current_board_data tab env lib self 1 p"

definition get_board_data_count ::
  "StreamExitCodes \<Rightarrow> environment \<Rightarrow> ('s, 'a) native_lib \<Rightarrow> BoardShim \<Rightarrow> 's process
     \<Rightarrow> (py_error + int) \<times> 's process" where
  "get_board_data_count tab env lib self p =
     (case np_zeros 1 of
        Inl e \<Rightarrow> (Inl e, p)
      | Inr data_size \<Rightarrow>
     (case call_native env (lib_get_board_data_count lib)
             (\<lambda>(res, cw). (Get_board_data_count, res)) p of
        (Inl e, p1) \<Rightarrow> (Inl e, p1)
      | (Inr (res, cw), p1) \<Rightarrow>
          (case check_status tab ''unable to obtain buffer size'' res of
             Inl e \<Rightarrow> (Inl e, p1)
           | Inr u \<Rightarrow> (Inr (poke data_size (map int64 cw) ! 0), p1))))"

definition get_board_data ::
  "StreamExitCodes \<Rightarrow> environment \<Rightarrow> ('s, 'a::zero) native_lib \<Rightarrow> BoardShim \<Rightarrow> 's process
     \<Rightarrow> (py_error + 'a ndarray2) \<times> 's process" where
  "get_board_data tab env lib self p =
     (case get_board_data_count tab env lib self p of
        (Inl e, p1) \<Rightarrow> (Inl e, p1)
      | (Inr data_size, p1) \<Rightarrow>
     (case np_zeros data_size of
        Inl e \<Rightarrow> (Inl e, p1)
      | Inr time_arr \<Rightarrow>
     (case np_zeros (int64 (data_size * package_length self)) of
        Inl e \<Rightarrow> (Inl e, p1)
      | Inr data_arr \<Rightarrow>
     (case call_native env (lib_get_board_data lib (c_int data_size))
             (\<lambda>(res, dw, tw). (Get_board_data (c_int data_size), res)) p1 of
        (Inl e, p2) \<Rightarrow> (Inl e, p2)
      | (Inr (res, dw, tw), p2) \<Rightarrow>
          (case check_status tab ''unable to get board data'' res of
             Inl e \<Rightarrow> (Inl e, p2)
           | Inr u \<Rightarrow>
               (case reshape (poke data_arr dw) data_size (package_length self) of
                  Inl e \<Rightarrow> (Inl e, p2)
                | Inr m \<Rightarrow>
                    (case column_stack m (poke time_arr tw) of
                       Inl e \<Rightarrow> (Inl e, p2)
                     | Inr table \<Rightarrow> (Inr table, p2))))))))"

text \<open>Successive calls of \<^verbatim>\<open>BoardControllerDLL.get_instance ()\<close>, with the result of each.\<close>

fun get_instance_calls ::
  "environment \<Rightarrow> nat \<Rightarrow> 's process \<Rightarrow> (py_error + nat) list \<times> 's process" where
  "get_instance_calls env 0 p = ([], p)"
| "get_instance_calls env (Suc k) p =
     (case get_instance env p of
        (r, p1) \<Rightarrow> (case get_instance_calls env k p1 of (rs, p2) \<Rightarrow> (r # rs, p2)))"

subsection \<open>How a status shows in the result of a wrapper\<close>

definition completes :: "py_error + 'r \<Rightarrow> bool" where
  "completes r = (case r of Inl e \<Rightarrow> False | Inr v \<Rightarrow> True)"

text \<open>
  The result is a BrainFlowError carrying the status as its exit code, with a message that
  starts with the name of the enumeration member of that value.
\<close>

definition raises_BrainFlowError :: "StreamExitCodes \<Rightarrow> int \<Rightarrow> py_error + 'r \<Rightarrow> bool" where
  "raises_BrainFlowError tab st r =
     (case member_name tab st of
        None \<Rightarrow> False
      | Some nm \<Rightarrow>
          (case r of
             Inl (BrainFlowError msg code) \<Rightarrow> code = st \<and> prefix (nm @ '':'') msg
           | _ \<Rightarrow> False))"

definition is_member :: "StreamExitCodes \<Rightarrow> int \<Rightarrow> bool" where
  "is_member tab st = (member_name tab st \<noteq> None)"

definition translated :: "StreamExitCodes \<Rightarrow> int \<Rightarrow> py_error + 'r \<Rightarrow> bool" where
  "translated tab st r =
     ((st = 0 \<longrightarrow> completes r) \<and> (st \<noteq> 0 \<and> is_member tab st \<longrightarrow> raises_BrainFlowError tab st r))"

text \<open>The library can be loaded and exports every function the constructor looks up.\<close>

definition loadable :: "environment \<Rightarrow> bool" where
  "loadable env =
     (case load_library env (dll_path env) of
        None \<Rightarrow> False
      | Some names \<Rightarrow> list_all (\<lambda>f. f \<in> set names) exported_functions)"

text \<open>
  The singleton can be obtained: it exists already, or the interpreter is a 64-bit one and
  the library is loadable.
\<close>

definition ready :: "environment \<Rightarrow> 's process \<Rightarrow> bool" where
  "ready env p = (dll_instance p \<noteq> None \<or> (calcsize_P env * 8 = 64 \<and> loadable env))"

subsection \<open>The sample buffer of the native core\<close>

text \<open>
  Modelled from the spec: the native core and its SampleBuffer are not among the sources.
  The spec describes the buffer as an ordered sequence of samples with a maximum retained
  count \<open>capacity\<close>, and \<open>push\<close> as: appends; if length == capacity, evicts the oldest
  entry first. The samples are kept oldest first. The spec does not say what evicting
  from an empty buffer of capacity 0 would mean (its capacity is the sampling rate times a
  retention window); the theorem below is about buffers of positive capacity.
\<close>

record 'a SampleBuffer =
  capacity :: nat
  samples :: "'a list"

definition push :: "'a SampleBuffer \<Rightarrow> 'a \<Rightarrow> 'a SampleBuffer" where
  "push b x =
     (if length (samples b) = capacity b
      then b\<lparr>samples := tl (samples b) @ [x]\<rparr>
      else b\<lparr>samples := samples b @ [x]\<rparr>)"

definition push_all :: "'a SampleBuffer \<Rightarrow> 'a list \<Rightarrow> 'a SampleBuffer" where
  "push_all b xs = foldl push b xs"

subsection \<open>Concrete instances\<close>

text \<open>
  An enumeration with three members, a native library whose every function returns the
  same status and writes the same values (\<open>lib_one\<close> holds one sample and succeeds,
  \<open>lib_refusing\<close> answers every call with status 13), a 64-bit and a 32-bit interpreter
  with the library installed, and the board object the constructor builds for board 0.
\<close>

definition codes3 :: StreamExitCodes where
  "codes3 = [(''STATUS_OK'', 0), (''INVALID_ARGUMENTS_ERROR'', 13), (''UNSUPPORTED_BOARD_ERROR'', 14)]"

definition scripted_lib :: "int \<Rightarrow> int \<Rightarrow> 'a list \<Rightarrow> 'a list \<Rightarrow> (unit, 'a) native_lib" where
  "scripted_lib st c dw tw =
     \<lparr>lib_prepare_session = (\<lambda>b port s. (st, s)),
      lib_start_stream = (\<lambda>n s. (st, s)),
      lib_stop_stream = (\<lambda>s. (st, s)),
      lib_get_current_board_data = (\<lambda>n s. ((st, dw, tw, [c]), s)),
      lib_get_board_data = (\<lambda>n s. ((st, dw, tw), s)),
      lib_release_session = (\<lambda>s. (st, s)),
      lib_get_board_data_count = (\<lambda>s. ((st, [c]), s)),
      lib_set_log_level = (\<lambda>l s. (st, s))\<rparr>"

definition env64 :: environment where
  "env64 = \<lparr>calcsize_P = 8, platform_system = ''Linux'',
             load_library = (\<lambda>path. Some exported_functions)\<rparr>"

definition env32 :: environment where
  "env32 = \<lparr>calcsize_P = 4, platform_system = ''Linux'',
             load_library = (\<lambda>path. Some exported_functions)\<rparr>"

text \<open>
  Two 64-bit interpreters on which the constructor fails: the library is missing, or it
  loads but exports no \<^verbatim>\<open>set_log_level\<close>.
\<close>

definition env64_missing :: environment where
  "env64_missing = \<lparr>calcsize_P = 8, platform_system = ''Linux'',
                     load_library = (\<lambda>path. None)\<rparr>"

definition env64_partial :: environment where
  "env64_partial = \<lparr>calcsize_P = 8, platform_system = ''Linux'',
                     load_library = (\<lambda>path. Some (butlast exported_functions))\<rparr>"

definition shim0 :: BoardShim where
  "shim0 = \<lparr>port_name = ''COM3'', board_id = 0, package_length = 12, fs_hz = 250,
            num_eeg_channels = 8\<rparr>"

definition lib_one :: "(unit, int) native_lib" where
  "lib_one = scripted_lib 0 1 [1, 2, 3, 4, 5, 6, 7, 8, 9, 10, 11, 12] [100]"

definition lib_refusing :: "(unit, int) native_lib" where
  "lib_refusing = scripted_lib 13 0 [] []"

section \<open>The singleton library object\<close>

lemma calcsize_env64: "calcsize_P env64 = 8"
  by (simp add: env64_def)

lemma loadable_env64: "loadable env64"
  by (simp add: loadable_def env64_def list_all_iff)

lemma ready_env64: "ready env64 p"
  by (simp add: ready_def calcsize_env64 loadable_env64)

lemma BoardControllerDLL_init_ok:
  "loadable env \<Longrightarrow>
   BoardControllerDLL_init env p =
     (Inr (length (loaded p)), p\<lparr>loaded := loaded p @ [dll_path env]\<rparr>)"
  by (auto simp: loadable_def BoardControllerDLL_init_def split: option.splits)

lemma get_instance_present:
  "dll_instance p = Some obj \<Longrightarrow> get_instance env p = (Inr obj, p)"
  by (simp add: get_instance_def)

lemma get_instance_first:
  "dll_instance p = None \<Longrightarrow> calcsize_P env * 8 = 64 \<Longrightarrow> loadable env \<Longrightarrow>
   get_instance env p =
     (Inr (length (loaded p)),
      p\<lparr>loaded := loaded p @ [dll_path env], dll_instance := Some (length (loaded p))\<rparr>)"
  by (simp add: get_instance_def BoardControllerDLL_init_ok)

lemma get_instance_refused:
  "dll_instance p = None \<Longrightarrow> calcsize_P env * 8 \<noteq> 64 \<Longrightarrow>
   get_instance env p = (Inl (Exception ''You need 64-bit python to use this library''), p)"
  by (simp add: get_instance_def)

lemma calls_present:
  "dll_instance p = Some obj \<Longrightarrow> get_instance_calls env k p = (replicate k (Inr obj), p)"
  by (induction k) (simp_all add: get_instance_present)

lemma calls_refused:
  "dll_instance p = None \<Longrightarrow> calcsize_P env * 8 \<noteq> 64 \<Longrightarrow>
   get_instance_calls env k p =
     (replicate k (Inl (Exception ''You need 64-bit python to use this library'')), p)"
  by (induction k) (simp_all add: get_instance_refused)

lemma calls_64:
  assumes "dll_instance p = None" and "calcsize_P env * 8 = 64" and "loadable env"
  shows "get_instance_calls env (Suc k) p =
     (replicate (Suc k) (Inr (length (loaded p))),
      p\<lparr>loaded := loaded p @ [dll_path env], dll_instance := Some (length (loaded p))\<rparr>)"
  using assms by (simp add: get_instance_first calls_present)

lemma get_instance_failed:
  "dll_instance p = None \<Longrightarrow> calcsize_P env * 8 = 64 \<Longrightarrow>
   BoardControllerDLL_init env p = (Inl e, p') \<Longrightarrow> get_instance env p = (Inl e, p')"
  by (simp add: get_instance_def)

text \<open>
  Claim C10, as amended. On a 64-bit interpreter on which the library loads and exports
  the functions the constructor looks up, every call of \<^verbatim>\<open>get_instance\<close> in a process
  returns the same object (the first one constructed) and the library is loaded once, by
  the first call; on any other interpreter every call raises and no library load is
  attempted.
\<close>

theorem get_instance_singleton:
  "(calcsize_P env * 8 = 64 \<and> loadable env \<longrightarrow>
      fst (get_instance_calls env k (initial_process s)) = replicate k (Inr 0) \<and>
      length (loaded (snd (get_instance_calls env k (initial_process s)))) = min k 1) \<and>
   (calcsize_P env * 8 \<noteq> 64 \<longrightarrow>
      fst (get_instance_calls env k (initial_process s)) =
        replicate k (Inl (Exception ''You need 64-bit python to use this library'')) \<and>
      loaded (snd (get_instance_calls env k (initial_process s))) = [])"
proof (intro conjI impI)
  have none: "dll_instance (initial_process s) = None" and nol: "loaded (initial_process s) = []"
    by (simp_all add: initial_process_def)
  {
    assume "calcsize_P env * 8 = 64 \<and> loadable env"
    then have b: "calcsize_P env * 8 = 64" and l: "loadable env" by simp_all
    show "fst (get_instance_calls env k (initial_process s)) = replicate k (Inr 0)"
      by (cases k) (simp_all add: calls_64 [OF none b l] nol del: get_instance_calls.simps(2))
    show "length (loaded (snd (get_instance_calls env k (initial_process s)))) = min k 1"
      by (cases k) (simp_all add: calls_64 [OF none b l] nol del: get_instance_calls.simps(2))
  }
  {
    assume b: "calcsize_P env * 8 \<noteq> 64"
    show "fst (get_instance_calls env k (initial_process s)) =
        replicate k (Inl (Exception ''You need 64-bit python to use this library''))"
      by (simp add: calls_refused [OF none b])
    show "loaded (snd (get_instance_calls env k (initial_process s))) = []"
      by (simp add: calls_refused [OF none b] nol)
  }
qed

theorem get_instance_singleton_witness:
  "calcsize_P env64 * 8 = 64 \<and> loadable env64 \<and> calcsize_P env32 * 8 \<noteq> 64 \<and>
   fst (get_instance_calls env64 3 (initial_process ())) = [Inr 0, Inr 0, Inr 0] \<and>
   length (loaded (snd (get_instance_calls env64 3 (initial_process ())))) = 1 \<and>
   loaded (snd (get_instance_calls env32 3 (initial_process ()))) = []"
  using get_instance_singleton [of env64 3 "()"] get_instance_singleton [of env32 3 "()"]
  by (simp add: calcsize_env64 loadable_env64 env32_def numeral_3_eq_3)

text \<open>
  Claim C10 as stated fails on a 64-bit interpreter whose constructor raises: with the
  library missing, two calls both raise OSError and return no object; with a library that
  loads but lacks an export, two calls both raise AttributeError and the library has been
  loaded twice.
\<close>

theorem load_failure_counterexample:
  "calcsize_P env64_missing * 8 = 64 \<and> calcsize_P env64_partial * 8 = 64 \<and>
   fst (get_instance_calls env64_missing 2 (initial_process ())) = [Inl OSError, Inl OSError] \<and>
   fst (get_instance_calls env64_partial 2 (initial_process ())) =
     [Inl AttributeError, Inl AttributeError] \<and>
   length (loaded (snd (get_instance_calls env64_partial 2 (initial_process ())))) = 2"
  by (simp add: numeral_2_eq_2 get_instance_def BoardControllerDLL_init_def initial_process_def
      env64_missing_def env64_partial_def exported_functions_def)

section \<open>The sample buffer\<close>

lemma push_capacity: "capacity (push b x) = capacity b"
  by (simp add: push_def)

lemma push_samples:
  "0 < capacity b \<Longrightarrow> length (samples b) \<le> capacity b \<Longrightarrow>
   samples (push b x) = drop (Suc (length (samples b)) - capacity b) (samples b @ [x])"
  by (cases "samples b") (auto simp: push_def Suc_diff_le drop_Cons')

lemma push_all_capacity: "capacity (push_all b xs) = capacity b"
  unfolding push_all_def by (induction xs arbitrary: b) (simp_all add: push_capacity)

lemma push_all_samples:
  "0 < capacity b \<Longrightarrow> length (samples b) \<le> capacity b \<Longrightarrow>
   samples (push_all b xs) = drop (length (samples b) + length xs - capacity b) (samples b @ xs)"
  unfolding push_all_def
proof (induction xs arbitrary: b)
  case Nil
  then show ?case by simp
next
  case (Cons x xs)
  let ?b = "push b x"
  have c: "capacity ?b = capacity b" by (rule push_capacity)
  have s: "samples ?b = drop (Suc (length (samples b)) - capacity b) (samples b @ [x])"
    using Cons.prems by (rule push_samples)
  have l: "length (samples ?b) \<le> capacity ?b"
    using Cons.prems by (simp add: s c)
  have "samples (foldl push ?b xs) =
        drop (length (samples ?b) + length xs - capacity ?b) (samples ?b @ xs)"
    using Cons.prems l by (intro Cons.IH) (simp_all add: c)
  also have "\<dots> = drop (length (samples b) + length (x # xs) - capacity b) (samples b @ x # xs)"
  proof (cases "length (samples b) = capacity b")
    case True
    with Cons.prems show ?thesis by (simp add: s c)
  next
    case False
    with Cons.prems show ?thesis by (simp add: s c)
  qed
  finally show ?case by simp
qed

text \<open>
  Claim C7. A buffer of positive capacity that holds at most \<open>capacity\<close> samples never
  holds more after any pushes; after more than \<open>capacity\<close> pushes it holds exactly the
  last \<open>capacity\<close> pushed samples in push order; and a push into a full buffer drops
  exactly the oldest sample.
\<close>

theorem fifo_eviction:
  "0 < capacity b \<and> length (samples b) \<le> capacity b \<longrightarrow>
     length (samples (push_all b xs)) \<le> capacity b \<and>
     capacity (push_all b xs) = capacity b \<and>
     (capacity b < length xs \<longrightarrow>
        samples (push_all b xs) = drop (length xs - capacity b) xs \<and>
        length (samples (push_all b xs)) = capacity b) \<and>
     (length (samples b) = capacity b \<longrightarrow> samples (push b x) = tl (samples b) @ [x])"
proof (intro impI, elim conjE)
  assume a: "0 < capacity b" "length (samples b) \<le> capacity b"
  note s = push_all_samples [OF a, of xs]
  show "length (samples (push_all b xs)) \<le> capacity b \<and>
     capacity (push_all b xs) = capacity b \<and>
     (capacity b < length xs \<longrightarrow>
        samples (push_all b xs) = drop (length xs - capacity b) xs \<and>
        length (samples (push_all b xs)) = capacity b) \<and>
     (length (samples b) = capacity b \<longrightarrow> samples (push b x) = tl (samples b) @ [x])"
    using a by (auto simp: s push_all_capacity push_def)
qed

theorem fifo_eviction_witness:
  "0 < capacity \<lparr>capacity = 2, samples = ([] :: int list)\<rparr> \<and>
   capacity \<lparr>capacity = 2, samples = ([] :: int list)\<rparr> < length [1, 2, 3, 4 :: int] \<and>
   samples (push_all \<lparr>capacity = 2, samples = []\<rparr> [1, 2, 3, 4 :: int]) = [3, 4] \<and>
   samples (push \<lparr>capacity = 2, samples = [1, 2 :: int]\<rparr> 3) = [2, 3]"
  using fifo_eviction [of "\<lparr>capacity = 2, samples = []\<rparr>" "[1, 2, 3, 4 :: int]"]
        fifo_eviction [of "\<lparr>capacity = 2, samples = [1, 2 :: int]\<rparr>" "[]" 3]
  by simp

section \<open>The constructor of BoardShim\<close>

lemma member_of_value:
  "map_of tab nm = Some v \<Longrightarrow> \<exists>nm'. member_name tab v = Some nm'"
proof -
  assume "map_of tab nm = Some v"
  then have "(nm, v) \<in> set tab" by (rule map_of_SomeD)
  then have "find (\<lambda>m. snd m = v) tab \<noteq> None"
    by (auto simp: find_None_iff)
  then show ?thesis by (auto simp: member_name_def)
qed

lemma member_name_unique:
  assumes "map_of tab nm = Some v" and "distinct (map snd tab)"
  shows "member_name tab v = Some nm"
proof -
  from assms(1) have mem: "(nm, v) \<in> set tab" by (rule map_of_SomeD)
  then obtain m where f: "find (\<lambda>m. snd m = v) tab = Some m"
    by (cases "find (\<lambda>m. snd m = v) tab") (auto simp: find_None_iff)
  then have "m \<in> set tab" and "snd m = v"
    by (auto simp: find_Some_iff)
  with mem assms(2) have "m = (nm, v)"
    by (metis distinct_map inj_onD snd_conv)
  with f show ?thesis by (simp add: member_name_def)
qed

text \<open>
  Claim C3. For every board id other than 0 the constructor of \<^verbatim>\<open>BoardShim\<close> raises a
  BrainFlowError whose exit code is the value of \<^verbatim>\<open>UNSUPPORTED_BOARD_ERROR\<close> and whose message
  names the member of that value (\<^verbatim>\<open>UNSUPPORTED_BOARD_ERROR\<close> itself when the enumeration has
  no aliases); no object is built and the process state is returned as it was: no singleton
  is created, the native state is untouched and the trace of native calls does not grow.
\<close>

theorem unsupported_board:
  "bid \<noteq> 0 \<and> member_value tab ''UNSUPPORTED_BOARD_ERROR'' = Some code \<longrightarrow>
     (\<exists>nm. member_name tab code = Some nm \<and>
        (distinct (map snd tab) \<longrightarrow> nm = ''UNSUPPORTED_BOARD_ERROR'') \<and>
        BoardShim_init tab bid port p =
          (Inl (BrainFlowError (nm @ '':'' @ show_int code @ '' unsupported board type'') code), p))"
proof (intro impI, elim conjE)
  assume b: "bid \<noteq> 0" and v: "member_value tab ''UNSUPPORTED_BOARD_ERROR'' = Some code"
  from v obtain nm where nm: "member_name tab code = Some nm"
    using member_of_value [of tab "''UNSUPPORTED_BOARD_ERROR''" code]
    unfolding member_value_def by blast
  have u: "distinct (map snd tab) \<longrightarrow> nm = ''UNSUPPORTED_BOARD_ERROR''"
    using v nm member_name_unique [of tab "''UNSUPPORTED_BOARD_ERROR''" code]
    by (auto simp: member_value_def)
  have "BoardShim_init tab bid port p =
          (Inl (BrainFlowError (nm @ '':'' @ show_int code @ '' unsupported board type'') code), p)"
    using b v nm by (simp add: BoardShim_init_def CYTHON_board_id_def BrainFlowError_init_def)
  with nm u show "\<exists>nm. member_name tab code = Some nm \<and>
        (distinct (map snd tab) \<longrightarrow> nm = ''UNSUPPORTED_BOARD_ERROR'') \<and>
        BoardShim_init tab bid port p =
          (Inl (BrainFlowError (nm @ '':'' @ show_int code @ '' unsupported board type'') code), p)"
    by blast
qed

lemma show_int_14: "show_int 14 = ''14''"
  by (simp add: show_int_def digit_char_def)

theorem unsupported_board_witness:
  "(1::int) \<noteq> 0 \<and> member_value codes3 ''UNSUPPORTED_BOARD_ERROR'' = Some 14 \<and>
   BoardShim_init codes3 1 ''COM3'' (initial_process ()) =
     (Inl (BrainFlowError ''UNSUPPORTED_BOARD_ERROR:14 unsupported board type'' 14),
      initial_process ())"
  using unsupported_board [of 1 codes3 14 "''COM3''" "initial_process ()"]
  by (simp add: codes3_def member_value_def member_name_def show_int_14)

lemma shim0_init: "BoardShim_init tab 0 ''COM3'' p = (Inr shim0, p)"
  by (simp add: BoardShim_init_def shim0_def CYTHON_board_id_def CYTHON_package_length_def
      CYTHON_fs_hz_def CYTHON_num_eeg_channels_def)

lemma init_package_length:
  "BoardShim_init tab bid port p = (Inr self, p') \<Longrightarrow>
   package_length self = 12 \<and> fs_hz self = 250 \<and> num_eeg_channels self = 8 \<and> board_id self = 0"
  by (auto simp: BoardShim_init_def CYTHON_board_id_def CYTHON_package_length_def
      CYTHON_fs_hz_def CYTHON_num_eeg_channels_def split: if_splits option.splits)

section \<open>Native calls and their statuses\<close>

lemma get_instance_keeps:
  "native (snd (get_instance env p)) = native p \<and> trace (snd (get_instance env p)) = trace p"
  by (simp add: get_instance_def BoardControllerDLL_init_def split: option.splits if_splits)

lemma get_instance_ready:
  "ready env p \<Longrightarrow> \<exists>obj. fst (get_instance env p) = Inr obj"
  by (auto simp: ready_def get_instance_def BoardControllerDLL_init_ok split: option.splits)

lemma call_native_ready:
  assumes "ready env p"
  shows "call_native env f entry p =
     (Inr (fst (f (native p))),
      (snd (get_instance env p))\<lparr>native := snd (f (native p)),
                                  trace := trace p @ [entry (fst (f (native p)))]\<rparr>)"
proof -
  obtain obj where "fst (get_instance env p) = Inr obj"
    using get_instance_ready [OF assms] by blast
  then have g: "get_instance env p = (Inr obj, snd (get_instance env p))"
    by (metis prod.collapse)
  show ?thesis
    unfolding call_native_def
    by (subst g) (simp add: get_instance_keeps split: prod.splits)
qed

lemma check_status_ok:
  "member_value tab ''STATUS_OK'' = Some 0 \<Longrightarrow> check_status tab msg 0 = Inr ()"
  by (simp add: check_status_def)

lemma check_status_error:
  "member_value tab ''STATUS_OK'' = Some 0 \<Longrightarrow> st \<noteq> 0 \<Longrightarrow>
   check_status tab msg st = Inl (BrainFlowError_init tab msg st)"
  by (simp add: check_status_def)

lemma raises_init:
  "is_member tab st \<Longrightarrow> raises_BrainFlowError tab st (Inl (BrainFlowError_init tab msg st))"
  by (auto simp: is_member_def raises_BrainFlowError_def BrainFlowError_init_def)

lemma translated_check_status:
  "member_value tab ''STATUS_OK'' = Some 0 \<Longrightarrow> translated tab st (check_status tab msg st)"
  by (auto simp: translated_def check_status_ok check_status_error raises_init completes_def)

lemma default_buffer: "c_int 900000 = 900000"
  by (simp add: c_int_def)

text \<open>
  Claim C5. Without an argument \<^verbatim>\<open>start_stream\<close> behaves as with the argument 3600 times the
  250 Hz of the board, that is 900000, and the native \<^verbatim>\<open>start_stream\<close> receives exactly
  900000: it is run on that argument and the trace records the call with it.
\<close>

theorem start_stream_default:
  "start_stream tab env lib self None p = start_stream tab env lib self (Some (3600 * CYTHON_fs_hz)) p \<and>
   3600 * CYTHON_fs_hz = 900000 \<and>
   (ready env p \<longrightarrow>
      native (snd (start_stream tab env lib self None p)) =
        snd (lib_start_stream lib 900000 (native p)) \<and>
      trace (snd (start_stream tab env lib self None p)) =
        trace p @ [(Start_stream 900000, fst (lib_start_stream lib 900000 (native p)))])"
proof (intro conjI impI)
  show "start_stream tab env lib self None p = start_stream tab env lib self (Some (3600 * CYTHON_fs_hz)) p"
    by (simp add: start_stream_def CYTHON_fs_hz_def)
  show "3600 * CYTHON_fs_hz = 900000" by (simp add: CYTHON_fs_hz_def)
  assume r: "ready env p"
  show "native (snd (start_stream tab env lib self None p)) =
        snd (lib_start_stream lib 900000 (native p))"
    by (simp add: start_stream_def call_native_ready [OF r] default_buffer)
  show "trace (snd (start_stream tab env lib self None p)) =
        trace p @ [(Start_stream 900000, fst (lib_start_stream lib 900000 (native p)))]"
    by (simp add: start_stream_def call_native_ready [OF r] default_buffer)
qed

theorem start_stream_default_witness:
  "ready env64 (initial_process ()) \<and>
   trace (snd (start_stream codes3 env64 (scripted_lib 0 0 [] ([] :: int list)) shim0 None
                 (initial_process ()))) = [(Start_stream 900000, 0)]"
proof -
  let ?lib = "scripted_lib 0 0 [] ([] :: int list)"
  have r: "ready env64 (initial_process ())"
    by (rule ready_env64)
  have "trace (snd (start_stream codes3 env64 ?lib shim0 None (initial_process ()))) =
        trace (initial_process ()) @
          [(Start_stream 900000, fst (lib_start_stream ?lib 900000 (native (initial_process ()))))]"
    using start_stream_default [of codes3 env64 ?lib shim0 "initial_process ()"] r by blast
  then show ?thesis
    using r by (simp add: initial_process_def scripted_lib_def)
qed

text \<open>
  Claim C9. \<^verbatim>\<open>get_immediate_board_data ()\<close> is \<^verbatim>\<open>get_current_board_data (1)\<close>: for every
  board object, native library and process state it gives the same result or error and
  leaves the same state.
\<close>

theorem immediate_is_current_1:
  "get_immediate_board_data tab env lib self p = get_current_board_data tab env lib self 1 p"
  by (simp add: get_immediate_board_data_def)

section \<open>The tables the data calls return\<close>

lemma np_zeros_ok: "0 \<le> k \<Longrightarrow> k < 2 ^ 60 \<Longrightarrow> np_zeros k = Inr (replicate (nat k) 0)"
  by (simp add: np_zeros_def)

lemma np_zeros_Inr: "np_zeros k = Inr xs \<Longrightarrow> 0 \<le> k \<and> k < 2 ^ 60 \<and> xs = replicate (nat k) 0"
  by (auto simp: np_zeros_def split: if_splits)

lemma length_poke: "length (poke buf w) = length buf"
  by (simp add: poke_def)

lemma int64_small: "- (2 ^ 63) \<le> x \<Longrightarrow> x < 2 ^ 63 \<Longrightarrow> int64 x = x"
  by (simp add: int64_def sint_sbintrunc' signed_take_bit_int_eq_self)

lemma poke_one: "poke [z] [v] = [v]"
  by (simp add: poke_def)

lemma row_of_prefix:
  assumes "i < r"
  shows "take c (drop (i * c) (take (r * c) xs)) = take c (drop (i * c) xs)"
proof -
  from assms have "Suc i \<le> r" by simp
  then have "Suc i * c \<le> r * c" by (rule mult_le_mono1)
  then have "c \<le> r * c - i * c" by simp
  then show ?thesis by (simp add: drop_take min_def)
qed

lemma reshape_prefix:
  assumes c: "0 \<le> c" and len: "nat c * 12 \<le> length D"
  shows "reshape (slice0 D (c * 12)) c 12 =
         Inr \<lparr>nrows = nat c, ncols = 12, flat = take (nat c * 12) D\<rparr>"
proof -
  have n12: "nat (c * 12) = nat c * 12"
    using c by (simp add: nat_mult_distrib)
  have s: "slice0 D (c * 12) = take (nat c * 12) D"
    using c by (simp add: slice0_def n12)
  have l: "int (length (take (nat c * 12) D)) = c * 12"
    using c len by (simp add: min_absorb2)
  show ?thesis
    using c by (simp add: reshape_def s l del: length_take)
qed

lemma stack_prefix:
  assumes c: "0 \<le> c" and lt: "nat c \<le> length T"
  shows "column_stack \<lparr>nrows = nat c, ncols = 12, flat = take (nat c * 12) D\<rparr> (slice0 T c) =
         Inr \<lparr>nrows = nat c, ncols = 13,
              flat = concat (map (\<lambda>i. take 12 (drop (i * 12) D) @ [T ! i]) [0..<nat c])\<rparr>"
proof -
  have t: "slice0 T c = take (nat c) T"
    using c by (simp add: slice0_def)
  have rows: "map (\<lambda>i. row \<lparr>nrows = nat c, ncols = 12, flat = take (nat c * 12) D\<rparr> i
                         @ [take (nat c) T ! i]) [0..<nat c] =
              map (\<lambda>i. take 12 (drop (i * 12) D) @ [T ! i]) [0..<nat c]"
    by (rule map_cong) (simp_all add: row_def row_of_prefix)
  show ?thesis
    using lt by (simp add: t column_stack_def rows min_absorb2)
qed

lemma get_current_board_data_ok:
  assumes ok: "member_value tab ''STATUS_OK'' = Some 0"
      and rdy: "ready env p"
      and pl: "package_length self = 12"
      and n: "0 \<le> n" "n * 12 < 2 ^ 60"
      and call: "lib_get_current_board_data lib (c_int n) (native p) = ((0, dw, tw, [c]), s')"
      and c: "0 \<le> c" "c \<le> n"
  shows "fst (get_current_board_data tab env lib self n p) =
         Inr (Some \<lparr>nrows = nat c, ncols = 13,
              flat = concat (map (\<lambda>i. take 12 (drop (i * 12) (poke (replicate (nat (n * 12)) 0) dw))
                                        @ [poke (replicate (nat n) 0) tw ! i]) [0..<nat c])\<rparr>)"
proof -
  let ?D = "poke (replicate (nat (n * 12)) 0) dw"
  let ?T = "poke (replicate (nat n) 0) tw"
  have z1: "np_zeros (n * 12) = Inr (replicate (nat (n * 12)) (0::'b))"
    using n by (intro np_zeros_ok) simp_all
  have z2: "np_zeros n = Inr (replicate (nat n) (0::'b))"
    using n by (intro np_zeros_ok) simp_all
  have z3: "np_zeros 1 = Inr [0::int]"
    by (simp add: np_zeros_def)
  have c64: "int64 c = c"
    using c n by (intro int64_small) simp_all
  have c12: "int64 (c * 12) = c * 12"
    using c n by (intro int64_small) simp_all
  have len: "nat c * 12 \<le> length ?D"
    using c n by (simp add: length_poke nat_mult_distrib nat_le_eq_zle)
  have lt: "nat c \<le> length ?T"
    using c by (simp add: length_poke)
  show ?thesis
    unfolding get_current_board_data_def
    by (simp add: pl z1 z2 z3 call_native_ready [OF rdy] call check_status_ok [OF ok]
        poke_one c64 c12 reshape_prefix [OF c(1) len] stack_prefix [OF c(1) lt])
qed

lemma block_of_concat:
  "\<forall>x \<in> set xss. length x = k \<Longrightarrow> i < length xss \<Longrightarrow>
   take k (drop (i * k) (concat xss)) = xss ! i"
proof (induction xss arbitrary: i)
  case Nil
  then show ?case by simp
next
  case (Cons x xss)
  show ?case
  proof (cases i)
    case 0
    with Cons.prems show ?thesis by simp
  next
    case (Suc j)
    with Cons.prems have "take k (drop (j * k) (concat xss)) = xss ! j"
      by (intro Cons.IH) simp_all
    with Suc Cons.prems show ?thesis by simp
  qed
qed

lemma row_of_stacked:
  assumes i: "i < r" and len: "r * 12 \<le> length D"
  shows "row \<lparr>nrows = r, ncols = 13,
              flat = concat (map (\<lambda>i. take 12 (drop (i * 12) D) @ [T ! i]) [0..<r])\<rparr> i =
         take 12 (drop (i * 12) D) @ [T ! i]"
proof -
  let ?f = "\<lambda>i. take 12 (drop (i * 12) D) @ [T ! i]"
  have "length (?f j) = 13" if "j < r" for j
  proof -
    from that have "Suc j * 12 \<le> r * 12" by simp
    with len have "12 \<le> length D - j * 12" by simp
    then show ?thesis by (simp add: min_absorb2)
  qed
  then have u: "\<forall>x \<in> set (map ?f [0..<r]). length x = 13" by auto
  have "take 13 (drop (i * 13) (concat (map ?f [0..<r]))) = map ?f [0..<r] ! i"
    using u i by (intro block_of_concat) simp_all
  with i show ?thesis by (simp add: row_def)
qed

text \<open>
  Claim C6. For a board object built by the constructor and every \<open>n \<ge> 1\<close> for which
  the native call is reached (the singleton can be obtained and the buffers can be
  allocated): if the native call returns status 0 and reports the count \<open>c\<close> with
  \<open>0 \<le> c \<le> n\<close>, the method returns a table of exactly \<open>c\<close> rows and 13 columns whose
  row \<open>i\<close> is the \<open>i\<close>-th package of 12 values of the data buffer followed by the
  \<open>i\<close>-th timestamp.
\<close>

theorem current_data_rows:
  "member_value tab ''STATUS_OK'' = Some 0 \<and> ready env p \<and>
   BoardShim_init tab bid port p0 = (Inr self, p0') \<and>
   1 \<le> n \<and> n * 12 < 2 ^ 60 \<and>
   lib_get_current_board_data lib (c_int n) (native p) = ((0, dw, tw, [c]), s') \<and>
   0 \<le> c \<and> c \<le> n \<longrightarrow>
   (\<exists>table. fst (get_current_board_data tab env lib self n p) = Inr (Some table) \<and>
      int (nrows table) = c \<and> ncols table = 13 \<and>
      (\<forall>i < nat c. row table i =
          take 12 (drop (i * 12) (poke (replicate (nat (n * 12)) 0) dw))
            @ [poke (replicate (nat n) 0) tw ! i]))"
proof (intro impI, elim conjE)
  assume ok: "member_value tab ''STATUS_OK'' = Some 0" and rdy: "ready env p"
    and init: "BoardShim_init tab bid port p0 = (Inr self, p0')"
    and n: "1 \<le> n" "n * 12 < 2 ^ 60"
    and call: "lib_get_current_board_data lib (c_int n) (native p) = ((0, dw, tw, [c]), s')"
    and c: "0 \<le> c" "c \<le> n"
  let ?D = "poke (replicate (nat (n * 12)) 0) dw"
  let ?T = "poke (replicate (nat n) 0) tw"
  let ?table = "\<lparr>nrows = nat c, ncols = 13,
              flat = concat (map (\<lambda>i. take 12 (drop (i * 12) ?D) @ [?T ! i]) [0..<nat c])\<rparr>"
  have pl: "package_length self = 12"
    using init_package_length [OF init] by simp
  have n0: "0 \<le> n" using n by simp
  have r: "fst (get_current_board_data tab env lib self n p) = Inr (Some ?table)"
    using ok rdy pl n0 n(2) call c by (rule get_current_board_data_ok)
  have len: "nat c * 12 \<le> length ?D"
    using c n by (simp add: length_poke nat_mult_distrib nat_le_eq_zle)
  have rows: "\<forall>i < nat c. row ?table i = take 12 (drop (i * 12) ?D) @ [?T ! i]"
    using len by (simp add: row_of_stacked)
  show "\<exists>table. fst (get_current_board_data tab env lib self n p) = Inr (Some table) \<and>
      int (nrows table) = c \<and> ncols table = 13 \<and>
      (\<forall>i < nat c. row table i = take 12 (drop (i * 12) ?D) @ [?T ! i])"
    using r rows c by (intro exI [of _ ?table]) simp
qed

lemma c_int_2: "c_int 2 = 2"
  by (simp add: c_int_def)

theorem current_data_rows_witness:
  "member_value codes3 ''STATUS_OK'' = Some 0 \<and> ready env64 (initial_process ()) \<and>
   BoardShim_init codes3 0 ''COM3'' (initial_process ()) = (Inr shim0, initial_process ()) \<and>
   lib_get_current_board_data lib_one (c_int 2) (native (initial_process ())) =
     ((0, [1, 2, 3, 4, 5, 6, 7, 8, 9, 10, 11, 12], [100], [1]), ()) \<and>
   (\<exists>table. fst (get_current_board_data codes3 env64 lib_one shim0 2 (initial_process ())) =
        Inr (Some table) \<and>
      nrows table = 1 \<and> ncols table = 13 \<and>
      row table 0 = [1, 2, 3, 4, 5, 6, 7, 8, 9, 10, 11, 12, 100])"
proof -
  let ?p = "initial_process ()"
  have i: "BoardShim_init codes3 0 ''COM3'' ?p = (Inr shim0, ?p)"
    by (rule shim0_init)
  have ok: "member_value codes3 ''STATUS_OK'' = Some 0"
    by (simp add: member_value_def codes3_def)
  have rdy: "ready env64 ?p"
    by (rule ready_env64)
  have call: "lib_get_current_board_data lib_one (c_int 2) (native ?p) =
     ((0, [1, 2, 3, 4, 5, 6, 7, 8, 9, 10, 11, 12], [100], [1]), ())"
    by (simp add: lib_one_def scripted_lib_def)
  have "\<exists>table. fst (get_current_board_data codes3 env64 lib_one shim0 2 ?p) = Inr (Some table) \<and>
      int (nrows table) = 1 \<and> ncols table = 13 \<and>
      (\<forall>i < nat 1. row table i =
          take 12 (drop (i * 12)
            (poke (replicate (nat (2 * 12)) 0) [1, 2, 3, 4, 5, 6, 7, 8, 9, 10, 11, 12]))
            @ [poke (replicate (nat 2) 0) [100] ! i])"
    using current_data_rows [where tab = codes3 and env = env64 and p = ?p and bid = 0
        and port = "''COM3''" and ?p0.0 = ?p and self = shim0 and ?p0' = ?p and lib = lib_one
        and n = 2 and dw = "[1, 2, 3, 4, 5, 6, 7, 8, 9, 10, 11, 12]" and tw = "[100]"
        and c = 1 and s' = "()"] i ok rdy call
    by simp
  then obtain table where
    t: "fst (get_current_board_data codes3 env64 lib_one shim0 2 ?p) = Inr (Some table)"
       "int (nrows table) = 1" "ncols table = 13"
       "\<forall>i < nat 1. row table i =
          take 12 (drop (i * 12)
            (poke (replicate (nat (2 * 12)) 0) [1, 2, 3, 4, 5, 6, 7, 8, 9, 10, 11, 12]))
            @ [poke (replicate (nat 2) 0) [100] ! i]"
    by blast
  from t(4) have "row table 0 = [1, 2, 3, 4, 5, 6, 7, 8, 9, 10, 11, 12, 100]"
    by (simp add: poke_def)
  with t(1-3) i ok rdy call show ?thesis
    by (intro conjI exI [of _ table]) simp_all
qed

lemma current_size_one: "length (poke [z] w) = 1"
  by (simp add: poke_def)

lemma never_None: "fst (get_current_board_data tab env lib self n p) \<noteq> Inr None"
  unfolding get_current_board_data_def
  by (simp add: np_zeros_def current_size_one Let_def split: sum.splits prod.splits)

lemma int64_numeral: "int64 12 = 12" "int64 1 = 1" "int64 2 = 2" "int64 24 = 24" "int64 0 = 0"
  by (simp_all add: int64_def)

lemma c_int_small: "c_int 1 = 1" "c_int 0 = 0" "c_int (-1) = -1"
  by (simp_all add: c_int_def)

lemma get_board_data_one:
  "fst (get_board_data codes3 env64 lib_one shim0 (initial_process ())) =
     Inr \<lparr>nrows = 1, ncols = 13, flat = [1, 2, 3, 4, 5, 6, 7, 8, 9, 10, 11, 12, 100]\<rparr>"
  by (simp add: get_board_data_def get_board_data_count_def call_native_def get_instance_def
      BoardControllerDLL_init_ok initial_process_def calcsize_env64 loadable_env64 lib_one_def scripted_lib_def
      shim0_def np_zeros_def poke_def check_status_def member_value_def codes3_def
      reshape_def column_stack_def row_def c_int_small int64_numeral)

lemma too_many:
  "fst (get_current_board_data codes3 env64 (scripted_lib 0 2 [] ([] :: int list)) shim0 1
          (initial_process ())) = Inl ValueError"
  by (simp add: get_current_board_data_def call_native_def get_instance_def
      BoardControllerDLL_init_ok initial_process_def calcsize_env64 loadable_env64 scripted_lib_def
      shim0_def np_zeros_def poke_def check_status_def member_value_def codes3_def
      reshape_def column_stack_def row_def c_int_small slice0_def int64_numeral)

lemma outside_status:
  "fst (stop_stream codes3 env64 (scripted_lib 99 0 [] ([] :: int list)) shim0
          (initial_process ())) = Inl ValueError"
  by (simp add: stop_stream_def call_native_def get_instance_def
      BoardControllerDLL_init_ok initial_process_def calcsize_env64 loadable_env64 scripted_lib_def
      check_status_def member_value_def member_name_def BrainFlowError_init_def codes3_def)

lemma reshape_Inr:
  "reshape xs r c = Inr m \<Longrightarrow> 0 \<le> r \<Longrightarrow> nrows m = nat r \<and> ncols m = nat c"
  by (auto simp: reshape_def split: if_splits)

lemma column_stack_Inr:
  "column_stack m t = Inr table \<Longrightarrow> nrows table = nrows m \<and> ncols table = ncols m + 1"
  by (auto simp: column_stack_def split: if_splits)

lemma get_board_data_shape:
  assumes pl: "package_length self = 12"
      and run: "get_board_data tab env lib self p = (Inr table, p')"
  shows "\<exists>d p1. get_board_data_count tab env lib self p = (Inr d, p1) \<and>
           int (nrows table) = d \<and> ncols table = 13"
  using run unfolding get_board_data_def
  by (auto simp: pl split: prod.splits sum.splits
      dest!: np_zeros_Inr column_stack_Inr dest: reshape_Inr)

text \<open>
  Claim C1, as amended. For a board object built by the constructor, every successful call
  of \<^verbatim>\<open>get_board_data\<close> returns a table whose number of rows is the value
  \<^verbatim>\<open>get_board_data_count\<close> returns at the start of the call and whose number of columns is
  \<open>package_length + 1 = 13\<close>: the 12 values of a package followed by the timestamp.
\<close>

theorem board_data_table:
  "BoardShim_init tab bid port p0 = (Inr self, p0') \<and>
   get_board_data tab env lib self p = (Inr table, p') \<longrightarrow>
   (\<exists>d p1. get_board_data_count tab env lib self p = (Inr d, p1) \<and> int (nrows table) = d) \<and>
   int (ncols table) = package_length self + 1 \<and> ncols table = 13"
proof (intro impI, elim conjE)
  assume init: "BoardShim_init tab bid port p0 = (Inr self, p0')"
    and run: "get_board_data tab env lib self p = (Inr table, p')"
  have pl: "package_length self = 12"
    using init_package_length [OF init] by simp
  from get_board_data_shape [OF pl run] show
    "(\<exists>d p1. get_board_data_count tab env lib self p = (Inr d, p1) \<and> int (nrows table) = d) \<and>
     int (ncols table) = package_length self + 1 \<and> ncols table = 13"
    by (auto simp: pl)
qed

lemma get_board_data_count_one:
  "fst (get_board_data_count codes3 env64 lib_one shim0 (initial_process ())) = Inr 1"
  by (simp add: get_board_data_count_def call_native_def get_instance_def
      BoardControllerDLL_init_ok initial_process_def calcsize_env64 loadable_env64 lib_one_def scripted_lib_def
      np_zeros_def poke_def check_status_def member_value_def codes3_def int64_numeral)

theorem board_data_table_witness:
  "BoardShim_init codes3 0 ''COM3'' (initial_process ()) = (Inr shim0, initial_process ()) \<and>
   fst (get_board_data codes3 env64 lib_one shim0 (initial_process ())) =
     Inr \<lparr>nrows = 1, ncols = 13, flat = [1, 2, 3, 4, 5, 6, 7, 8, 9, 10, 11, 12, 100]\<rparr> \<and>
   fst (get_board_data_count codes3 env64 lib_one shim0 (initial_process ())) = Inr 1 \<and>
   int (ncols \<lparr>nrows = 1, ncols = 13, flat = [1, 2, 3, 4, 5, 6, 7, 8, 9, 10, 11, 12, 100 :: int]\<rparr>) =
     package_length shim0 + 1"
proof -
  let ?t = "\<lparr>nrows = 1, ncols = 13, flat = [1, 2, 3, 4, 5, 6, 7, 8, 9, 10, 11, 12, 100 :: int]\<rparr>"
  let ?run = "get_board_data codes3 env64 lib_one shim0 (initial_process ())"
  have i: "BoardShim_init codes3 0 ''COM3'' (initial_process ()) = (Inr shim0, initial_process ())"
    by (rule shim0_init)
  have r: "?run = (Inr ?t, snd ?run)"
    using get_board_data_one by (metis prod.collapse)
  from board_data_table [of codes3 0 "''COM3''" "initial_process ()" shim0 "initial_process ()"
      env64 lib_one "initial_process ()" ?t "snd ?run"] i r
  have "int (ncols ?t) = package_length shim0 + 1" by blast
  with i show ?thesis
    by (simp add: get_board_data_one get_board_data_count_one)
qed

text \<open>
  Claim C1 as stated fails: with one sample in the buffer the table has 13 columns, not
  the \<open>num_eeg_channels + 1 = 9\<close> of the claim.
\<close>

theorem nine_columns_counterexample:
  "fst (get_board_data codes3 env64 lib_one shim0 (initial_process ())) =
     Inr \<lparr>nrows = 1, ncols = 13, flat = [1, 2, 3, 4, 5, 6, 7, 8, 9, 10, 11, 12, 100]\<rparr> \<and>
   ncols \<lparr>nrows = 1, ncols = 13, flat = [1, 2, 3, 4, 5, 6, 7, 8, 9, 10, 11, 12, 100 :: int]\<rparr>
     \<noteq> nat (num_eeg_channels shim0 + 1) \<and>
   num_eeg_channels shim0 + 1 = 9"
  using get_board_data_one by (simp add: shim0_def)

text \<open>
  Claim C2, as amended. For a board object built by the constructor: for every \<open>n < 0\<close>
  \<^verbatim>\<open>get_current_board_data (n)\<close> raises ValueError while it allocates its buffers and leaves
  the process state as it was (no native call); for \<open>n = 0\<close>, when the native call returns
  status 0 and reports the count 0, it returns the empty table of 0 rows and 13 columns.
\<close>

theorem nonpositive_request:
  "BoardShim_init tab bid port p0 = (Inr self, p0') \<longrightarrow>
   (n < 0 \<longrightarrow> get_current_board_data tab env lib self n p = (Inl ValueError, p)) \<and>
   (member_value tab ''STATUS_OK'' = Some 0 \<and> ready env p \<and>
    lib_get_current_board_data lib (c_int 0) (native p) = ((0, dw, tw, [0]), s') \<longrightarrow>
    fst (get_current_board_data tab env lib self 0 p) =
      Inr (Some \<lparr>nrows = 0, ncols = 13, flat = []\<rparr>))"
proof (intro impI conjI)
  assume init: "BoardShim_init tab bid port p0 = (Inr self, p0')"
  have pl: "package_length self = 12"
    using init_package_length [OF init] by simp
  {
    assume "n < 0"
    then show "get_current_board_data tab env lib self n p = (Inl ValueError, p)"
      by (simp add: get_current_board_data_def pl np_zeros_def)
  }
  {
    assume h: "member_value tab ''STATUS_OK'' = Some 0 \<and> ready env p \<and>
      lib_get_current_board_data lib (c_int 0) (native p) = ((0, dw, tw, [0]), s')"
    then have ok: "member_value tab ''STATUS_OK'' = Some 0" and rdy: "ready env p"
      and call: "lib_get_current_board_data lib (c_int 0) (native p) = ((0, dw, tw, [0]), s')"
      by simp_all
    show "fst (get_current_board_data tab env lib self 0 p) =
      Inr (Some \<lparr>nrows = 0, ncols = 13, flat = []\<rparr>)"
      using get_current_board_data_ok [OF ok rdy pl _ _ call] by simp
  }
qed

theorem nonpositive_request_witness:
  "BoardShim_init codes3 0 ''COM3'' (initial_process ()) = (Inr shim0, initial_process ()) \<and>
   (- 2 :: int) < 0 \<and>
   get_current_board_data codes3 env64 (scripted_lib 0 0 [] ([] :: int list)) shim0 (- 2)
     (initial_process ()) = (Inl ValueError, initial_process ()) \<and>
   member_value codes3 ''STATUS_OK'' = Some 0 \<and> ready env64 (initial_process ()) \<and>
   fst (get_current_board_data codes3 env64 (scripted_lib 0 0 [] ([] :: int list)) shim0 0
     (initial_process ())) = Inr (Some \<lparr>nrows = 0, ncols = 13, flat = []\<rparr>)"
proof -
  let ?lib = "scripted_lib 0 0 [] ([] :: int list)"
  let ?p = "initial_process ()"
  have i: "BoardShim_init codes3 0 ''COM3'' ?p = (Inr shim0, ?p)"
    by (rule shim0_init)
  have ok: "member_value codes3 ''STATUS_OK'' = Some 0"
    by (simp add: member_value_def codes3_def)
  have rdy: "ready env64 ?p"
    by (rule ready_env64)
  have call: "lib_get_current_board_data ?lib (c_int 0) (native ?p) = ((0, [], [], [0]), ())"
    by (simp add: scripted_lib_def)
  note t = nonpositive_request [of codes3 0 "''COM3''" ?p shim0 ?p _ env64 ?lib ?p "[]" "[]" "()"]
  have a: "get_current_board_data codes3 env64 ?lib shim0 (- 2) ?p = (Inl ValueError, ?p)"
    using t [of "- 2"] i by simp
  have b: "fst (get_current_board_data codes3 env64 ?lib shim0 0 ?p) =
           Inr (Some \<lparr>nrows = 0, ncols = 13, flat = []\<rparr>)"
    using t [of 0] i ok rdy call by blast
  show ?thesis using i ok rdy a b by simp
qed

text \<open>
  Claim C2 as stated fails: \<^verbatim>\<open>get_current_board_data (-1)\<close> raises ValueError.
\<close>

theorem negative_request_counterexample:
  "get_current_board_data codes3 env64 (scripted_lib 0 0 [] ([] :: int list)) shim0 (- 1)
          (initial_process ()) = (Inl ValueError, initial_process ())"
  by (simp add: get_current_board_data_def shim0_def np_zeros_def)

text \<open>
  Claim C8, as amended. \<^verbatim>\<open>get_current_board_data\<close> never returns \<^verbatim>\<open>None\<close>, for any argument
  and any behaviour of the native library: the array \<^verbatim>\<open>current_size\<close> has length 1 when its
  length is tested. For \<open>n \<ge> 1\<close>, when the native call returns status 0 and reports a
  count \<open>c\<close> with \<open>0 \<le> c \<le> n\<close>, the method returns a table.
\<close>

theorem never_returns_None:
  "fst (get_current_board_data tab env lib self n p) \<noteq> Inr None \<and>
   (member_value tab ''STATUS_OK'' = Some 0 \<and> ready env p \<and>
    BoardShim_init tab bid port p0 = (Inr self, p0') \<and>
    1 \<le> n \<and> n * 12 < 2 ^ 60 \<and>
    lib_get_current_board_data lib (c_int n) (native p) = ((0, dw, tw, [c]), s') \<and>
    0 \<le> c \<and> c \<le> n \<longrightarrow>
    (\<exists>table. fst (get_current_board_data tab env lib self n p) = Inr (Some table)))"
proof (intro conjI impI, rule never_None, elim conjE)
  assume ok: "member_value tab ''STATUS_OK'' = Some 0" and rdy: "ready env p"
    and init: "BoardShim_init tab bid port p0 = (Inr self, p0')"
    and n: "1 \<le> n" "n * 12 < 2 ^ 60"
    and call: "lib_get_current_board_data lib (c_int n) (native p) = ((0, dw, tw, [c]), s')"
    and c: "0 \<le> c" "c \<le> n"
  have pl: "package_length self = 12"
    using init_package_length [OF init] by simp
  have n0: "0 \<le> n" using n by simp
  show "\<exists>table. fst (get_current_board_data tab env lib self n p) = Inr (Some table)"
    using get_current_board_data_ok [OF ok rdy pl n0 n(2) call c] by blast
qed

theorem never_returns_None_witness:
  "member_value codes3 ''STATUS_OK'' = Some 0 \<and> ready env64 (initial_process ()) \<and>
   BoardShim_init codes3 0 ''COM3'' (initial_process ()) = (Inr shim0, initial_process ()) \<and>
   lib_get_current_board_data lib_one (c_int 1) (native (initial_process ())) =
     ((0, [1, 2, 3, 4, 5, 6, 7, 8, 9, 10, 11, 12], [100], [1]), ()) \<and>
   (\<exists>table. fst (get_current_board_data codes3 env64 lib_one shim0 1 (initial_process ())) =
      Inr (Some table))"
proof -
  let ?p = "initial_process ()"
  have i: "BoardShim_init codes3 0 ''COM3'' ?p = (Inr shim0, ?p)"
    by (rule shim0_init)
  have ok: "member_value codes3 ''STATUS_OK'' = Some 0"
    by (simp add: member_value_def codes3_def)
  have rdy: "ready env64 ?p"
    by (rule ready_env64)
  have call: "lib_get_current_board_data lib_one (c_int 1) (native ?p) =
     ((0, [1, 2, 3, 4, 5, 6, 7, 8, 9, 10, 11, 12], [100], [1]), ())"
    by (simp add: lib_one_def scripted_lib_def)
  have "\<exists>table. fst (get_current_board_data codes3 env64 lib_one shim0 1 ?p) = Inr (Some table)"
    using never_returns_None [of codes3 env64 lib_one shim0 1 ?p 0 "''COM3''" ?p ?p
        "[1, 2, 3, 4, 5, 6, 7, 8, 9, 10, 11, 12]" "[100]" 1 "()"] i ok rdy call
    by simp
  with i ok rdy call show ?thesis by blast
qed

text \<open>
  Claim C8 as stated fails: when the native call returns status 0 but reports 2 samples
  for a request of 1, the reshape raises ValueError and no table is returned.
\<close>

theorem overreported_count_counterexample:
  "fst (fst (lib_get_current_board_data (scripted_lib 0 2 [] ([] :: int list)) (c_int 1)
               (native (initial_process ())))) = 0 \<and>
   fst (get_current_board_data codes3 env64 (scripted_lib 0 2 [] ([] :: int list)) shim0 1
          (initial_process ())) = Inl ValueError"
  using too_many by (simp add: scripted_lib_def)

section \<open>Translation of the native status\<close>

lemma translated_result:
  "translated tab st r \<Longrightarrow> translated tab st (case r of Inl e \<Rightarrow> Inl e | Inr u \<Rightarrow> Inr (f u))"
  by (cases r)
     (auto simp: translated_def completes_def raises_BrainFlowError_def split: option.splits)

lemma unit_wrapper:
  assumes ok: "member_value tab ''STATUS_OK'' = Some 0" and rdy: "ready env p"
  shows "translated tab (fst (f (native p)))
           (fst (case call_native env f entry p of
                   (Inl e, p1) \<Rightarrow> (Inl e, p1)
                 | (Inr res, p1) \<Rightarrow> (check_status tab msg res, p1)))"
  by (simp add: call_native_ready [OF rdy] translated_check_status [OF ok])

lemma prepare_session_translated:
  "member_value tab ''STATUS_OK'' = Some 0 \<Longrightarrow> ready env p \<Longrightarrow>
   translated tab (fst (lib_prepare_session lib (c_int (board_id self)) (port_name self) (native p)))
     (fst (prepare_session tab env lib self p))"
  unfolding prepare_session_def by (rule unit_wrapper)

lemma start_stream_translated:
  "member_value tab ''STATUS_OK'' = Some 0 \<Longrightarrow> ready env p \<Longrightarrow>
   translated tab
     (fst (lib_start_stream lib (c_int (case arg of None \<Rightarrow> 3600 * 250 | Some n \<Rightarrow> n)) (native p)))
     (fst (start_stream tab env lib self arg p))"
  unfolding start_stream_def Let_def by (rule unit_wrapper)

lemma stop_stream_translated:
  "member_value tab ''STATUS_OK'' = Some 0 \<Longrightarrow> ready env p \<Longrightarrow>
   translated tab (fst (lib_stop_stream lib (native p))) (fst (stop_stream tab env lib self p))"
  unfolding stop_stream_def by (rule unit_wrapper)

lemma release_session_translated:
  "member_value tab ''STATUS_OK'' = Some 0 \<Longrightarrow> ready env p \<Longrightarrow>
   translated tab (fst (lib_release_session lib (native p)))
     (fst (release_session tab env lib self p))"
  unfolding release_session_def by (rule unit_wrapper)

lemma set_level_translated:
  "member_value tab ''STATUS_OK'' = Some 0 \<Longrightarrow> ready env p \<Longrightarrow>
   translated tab (fst (lib_set_log_level lib (c_int level) (native p)))
     (fst (set_level tab env lib level msg p))"
  unfolding set_level_def by (rule unit_wrapper)

lemma c_int_levels: "c_int 2 = 2" "c_int 6 = 6" "c_int 0 = 0"
  by (simp_all add: c_int_def)

lemma loggers_translated:
  assumes ok: "member_value tab ''STATUS_OK'' = Some 0" and rdy: "ready env p"
  shows "translated tab (fst (lib_set_log_level lib 2 (native p)))
           (fst (enable_board_logger tab env lib p))"
    and "translated tab (fst (lib_set_log_level lib 6 (native p)))
           (fst (disable_board_logger tab env lib p))"
    and "translated tab (fst (lib_set_log_level lib 0 (native p)))
           (fst (enable_dev_board_logger tab env lib p))"
  using set_level_translated [OF ok rdy, of lib 2]
        set_level_translated [OF ok rdy, of lib 6]
        set_level_translated [OF ok rdy, of lib 0]
  by (simp_all add: enable_board_logger_def disable_board_logger_def
      enable_dev_board_logger_def c_int_levels)

lemma get_board_data_count_result:
  assumes rdy: "ready env p"
      and call: "lib_get_board_data_count lib (native p) = ((st, cw), s1)"
  shows "get_board_data_count tab env lib self p =
           ((case check_status tab ''unable to obtain buffer size'' st of
               Inl e \<Rightarrow> Inl e
             | Inr u \<Rightarrow> Inr (poke [0] (map int64 cw) ! 0)),
            (snd (get_instance env p))\<lparr>native := s1, trace := trace p @ [(Get_board_data_count, st)]\<rparr>)"
  by (simp add: get_board_data_count_def np_zeros_def call_native_ready [OF rdy] call
      split: sum.splits)

lemma get_board_data_count_translated:
  assumes ok: "member_value tab ''STATUS_OK'' = Some 0" and rdy: "ready env p"
  shows "translated tab (fst (fst (lib_get_board_data_count lib (native p))))
           (fst (get_board_data_count tab env lib self p))"
proof -
  obtain st cw s1 where call: "lib_get_board_data_count lib (native p) = ((st, cw), s1)"
    by (metis prod.collapse)
  show ?thesis
    by (simp add: get_board_data_count_result [OF rdy call] call
        translated_result [OF translated_check_status [OF ok]])
qed

lemma get_current_board_data_error:
  assumes ok: "member_value tab ''STATUS_OK'' = Some 0" and rdy: "ready env p"
      and pl: "package_length self = 12"
      and n: "0 \<le> n" "n * 12 < 2 ^ 60"
      and call: "lib_get_current_board_data lib (c_int n) (native p) = ((st, dw, tw, cw), s')"
      and st: "st \<noteq> 0"
  shows "fst (get_current_board_data tab env lib self n p) =
         Inl (BrainFlowError_init tab ''unable to get current data'' st)"
proof -
  have z1: "np_zeros (n * 12) = Inr (replicate (nat (n * 12)) (0::'b))"
    using n by (intro np_zeros_ok) simp_all
  have z2: "np_zeros n = Inr (replicate (nat n) (0::'b))"
    using n by (intro np_zeros_ok) simp_all
  have z3: "np_zeros 1 = Inr [0::int]"
    by (simp add: np_zeros_def)
  show ?thesis
    unfolding get_current_board_data_def
    by (simp add: pl z1 z2 z3 call_native_ready [OF rdy] call check_status_error [OF ok st])
qed

lemma get_current_board_data_translated:
  assumes ok: "member_value tab ''STATUS_OK'' = Some 0" and rdy: "ready env p"
      and pl: "package_length self = 12"
      and n: "0 \<le> n" "n * 12 < 2 ^ 60"
      and call: "lib_get_current_board_data lib (c_int n) (native p) = ((st, dw, tw, cw), s')"
  shows "(st \<noteq> 0 \<and> is_member tab st \<longrightarrow>
            raises_BrainFlowError tab st (fst (get_current_board_data tab env lib self n p))) \<and>
         (st = 0 \<and> cw = [c] \<and> 0 \<le> c \<and> c \<le> n \<longrightarrow>
            completes (fst (get_current_board_data tab env lib self n p)))"
proof (intro conjI impI)
  assume "st \<noteq> 0 \<and> is_member tab st"
  then show "raises_BrainFlowError tab st (fst (get_current_board_data tab env lib self n p))"
    using get_current_board_data_error [OF ok rdy pl n call] by (simp add: raises_init)
next
  assume h: "st = 0 \<and> cw = [c] \<and> 0 \<le> c \<and> c \<le> n"
  then have call': "lib_get_current_board_data lib (c_int n) (native p) = ((0, dw, tw, [c]), s')"
    using call by simp
  from h have c: "0 \<le> c" "c \<le> n" by simp_all
  show "completes (fst (get_current_board_data tab env lib self n p))"
    using get_current_board_data_ok [OF ok rdy pl n call' c] by (simp add: completes_def)
qed

lemma ready_after_get_instance: "ready env p \<Longrightarrow> ready env (snd (get_instance env p))"
  by (auto simp: ready_def get_instance_def BoardControllerDLL_init_ok split: option.splits)

lemma ready_update: "ready env (p\<lparr>native := s, trace := t\<rparr>) = ready env p"
  by (simp add: ready_def)

lemma get_board_data_translated:
  assumes ok: "member_value tab ''STATUS_OK'' = Some 0" and rdy: "ready env p"
      and pl: "package_length self = 12"
      and cnt: "lib_get_board_data_count lib (native p) = ((st1, cw), s1)"
  shows "(st1 \<noteq> 0 \<and> is_member tab st1 \<longrightarrow>
            raises_BrainFlowError tab st1 (fst (get_board_data tab env lib self p))) \<and>
         (st1 = 0 \<and> cw = [d] \<and> 0 \<le> d \<and> d * 12 < 2 ^ 60 \<longrightarrow>
            translated tab (fst (fst (lib_get_board_data lib (c_int d) s1)))
              (fst (get_board_data tab env lib self p)))"
proof (intro conjI impI)
  note r = get_board_data_count_result [OF rdy cnt, of tab self]
  {
    assume h: "st1 \<noteq> 0 \<and> is_member tab st1"
    then have "fst (get_board_data tab env lib self p) =
               Inl (BrainFlowError_init tab ''unable to obtain buffer size'' st1)"
      by (simp add: get_board_data_def r check_status_error [OF ok])
    with h show "raises_BrainFlowError tab st1 (fst (get_board_data tab env lib self p))"
      by (simp add: raises_init)
  }
  {
    assume h: "st1 = 0 \<and> cw = [d] \<and> 0 \<le> d \<and> d * 12 < 2 ^ 60"
    let ?p1 = "(snd (get_instance env p))\<lparr>native := s1,
                 trace := trace p @ [(Get_board_data_count, st1)]\<rparr>"
    obtain st2 dw tw s2 where call: "lib_get_board_data lib (c_int d) s1 = ((st2, dw, tw), s2)"
      by (metis prod.collapse)
    have d64: "int64 d = d"
      using h by (intro int64_small) simp_all
    have d12: "int64 (d * 12) = d * 12"
      using h by (intro int64_small) simp_all
    have z1: "np_zeros d = Inr (replicate (nat d) (0::'b))"
      using h by (intro np_zeros_ok) simp_all
    have z2: "np_zeros (d * 12) = Inr (replicate (nat (d * 12)) (0::'b))"
      using h by (intro np_zeros_ok) simp_all
    have resh: "reshape (poke (replicate (nat (d * 12)) (0::'b)) dw) d 12 =
            Inr \<lparr>nrows = nat d, ncols = 12, flat = poke (replicate (nat (d * 12)) 0) dw\<rparr>"
      using h by (simp add: reshape_def length_poke)
    have run: "fst (get_board_data tab env lib self p) =
          (case check_status tab ''unable to get board data'' st2 of
             Inl e \<Rightarrow> Inl e
           | Inr u \<Rightarrow> Inr \<lparr>nrows = nat d, ncols = 13,
                 flat = concat (map (\<lambda>i. row \<lparr>nrows = nat d, ncols = 12,
                                   flat = poke (replicate (nat (d * 12)) 0) dw\<rparr> i
                                 @ [poke (replicate (nat d) 0) tw ! i]) [0..<nat d])\<rparr>)"
      using h
      by (simp add: get_board_data_def r check_status_ok [OF ok] poke_one d64 d12 z1 z2 pl
          call_native_ready ready_update ready_after_get_instance [OF rdy] call resh column_stack_def length_poke split: sum.splits)
    show "translated tab (fst (fst (lib_get_board_data lib (c_int d) s1)))
              (fst (get_board_data tab env lib self p))"
      unfolding run call fst_conv
      by (rule translated_result [OF translated_check_status [OF ok]])
  }
qed

lemma non_member_ValueError:
  "member_value tab ''STATUS_OK'' = Some 0 \<Longrightarrow> st \<noteq> 0 \<Longrightarrow> \<not> is_member tab st \<Longrightarrow>
   check_status tab msg st = Inl ValueError"
  by (simp add: check_status_def BrainFlowError_init_def is_member_def)

lemma some_status_is_no_member: "\<exists>st. st \<noteq> 0 \<and> \<not> is_member tab st"
proof -
  have "finite (insert 0 (snd ` set tab))" by simp
  then obtain st where st: "st \<notin> insert 0 (snd ` set tab)"
    using ex_new_if_finite [OF infinite_UNIV_int] by blast
  then have "\<forall>m \<in> set tab. snd m \<noteq> st"
    by (metis image_eqI insertCI)
  then have "find (\<lambda>m. snd m = st) tab = None"
    unfolding find_None_iff by blast
  with st show ?thesis
    by (auto simp: is_member_def member_name_def)
qed

text \<open>
  Claim C4, as amended. With \<^verbatim>\<open>STATUS_OK\<close> of value 0, the singleton obtainable and a board
  object built by the constructor, for each of the ten operations: a native status 0 lets
  the operation complete normally, and a nonzero status that is the value of a member of
  the enumeration makes it raise a BrainFlowError with that status as exit code and a
  message that starts with the member's name. The data calls carry provisos.
  \<^verbatim>\<open>get_current_board_data (n)\<close> reaches its native call for \<open>0 \<le> n\<close> with \<open>12 n < 2^60\<close>
  (its buffers are allocated), and completion at status 0 needs the reported count \<open>c\<close>
  to satisfy \<open>0 \<le> c \<le> n\<close>. \<^verbatim>\<open>get_board_data\<close> makes two native calls: a nonzero member
  status of the count call raises as above; when the count call returns 0 and reports a
  count \<open>d\<close> with \<open>0 \<le> d\<close> and \<open>12 d < 2^60\<close> the data call is made, and its status is
  translated as above.
\<close>

theorem status_translation:
  "member_value tab ''STATUS_OK'' = Some 0 \<and> ready env p \<and>
   BoardShim_init tab bid port p0 = (Inr self, p0') \<longrightarrow>
   translated tab (fst (lib_prepare_session lib (c_int (board_id self)) (port_name self) (native p)))
     (fst (prepare_session tab env lib self p)) \<and>
   translated tab
     (fst (lib_start_stream lib (c_int (case arg of None \<Rightarrow> 3600 * 250 | Some k \<Rightarrow> k)) (native p)))
     (fst (start_stream tab env lib self arg p)) \<and>
   translated tab (fst (lib_stop_stream lib (native p))) (fst (stop_stream tab env lib self p)) \<and>
   translated tab (fst (lib_release_session lib (native p)))
     (fst (release_session tab env lib self p)) \<and>
   translated tab (fst (lib_set_log_level lib 2 (native p)))
     (fst (enable_board_logger tab env lib p)) \<and>
   translated tab (fst (lib_set_log_level lib 6 (native p)))
     (fst (disable_board_logger tab env lib p)) \<and>
   translated tab (fst (lib_set_log_level lib 0 (native p)))
     (fst (enable_dev_board_logger tab env lib p)) \<and>
   translated tab (fst (fst (lib_get_board_data_count lib (native p))))
     (fst (get_board_data_count tab env lib self p)) \<and>
   (0 \<le> n \<and> n * 12 < 2 ^ 60 \<and>
    lib_get_current_board_data lib (c_int n) (native p) = ((st, dw, tw, cw), s') \<longrightarrow>
      (st \<noteq> 0 \<and> is_member tab st \<longrightarrow>
         raises_BrainFlowError tab st (fst (get_current_board_data tab env lib self n p))) \<and>
      (st = 0 \<and> cw = [c] \<and> 0 \<le> c \<and> c \<le> n \<longrightarrow>
         completes (fst (get_current_board_data tab env lib self n p)))) \<and>
   (lib_get_board_data_count lib (native p) = ((st1, cw1), s1) \<longrightarrow>
      (st1 \<noteq> 0 \<and> is_member tab st1 \<longrightarrow>
         raises_BrainFlowError tab st1 (fst (get_board_data tab env lib self p))) \<and>
      (st1 = 0 \<and> cw1 = [d] \<and> 0 \<le> d \<and> d * 12 < 2 ^ 60 \<longrightarrow>
         translated tab (fst (fst (lib_get_board_data lib (c_int d) s1)))
           (fst (get_board_data tab env lib self p))))"
proof (intro impI, elim conjE)
  assume ok: "member_value tab ''STATUS_OK'' = Some 0" and rdy: "ready env p"
    and init: "BoardShim_init tab bid port p0 = (Inr self, p0')"
  have pl: "package_length self = 12"
    using init_package_length [OF init] by simp
  note cur = get_current_board_data_translated [OF ok rdy pl]
  note all = get_board_data_translated [OF ok rdy pl]
  show "translated tab (fst (lib_prepare_session lib (c_int (board_id self)) (port_name self) (native p)))
     (fst (prepare_session tab env lib self p)) \<and>
   translated tab
     (fst (lib_start_stream lib (c_int (case arg of None \<Rightarrow> 3600 * 250 | Some k \<Rightarrow> k)) (native p)))
     (fst (start_stream tab env lib self arg p)) \<and>
   translated tab (fst (lib_stop_stream lib (native p))) (fst (stop_stream tab env lib self p)) \<and>
   translated tab (fst (lib_release_session lib (native p)))
     (fst (release_session tab env lib self p)) \<and>
   translated tab (fst (lib_set_log_level lib 2 (native p)))
     (fst (enable_board_logger tab env lib p)) \<and>
   translated tab (fst (lib_set_log_level lib 6 (native p)))
     (fst (disable_board_logger tab env lib p)) \<and>
   translated tab (fst (lib_set_log_level lib 0 (native p)))
     (fst (enable_dev_board_logger tab env lib p)) \<and>
   translated tab (fst (fst (lib_get_board_data_count lib (native p))))
     (fst (get_board_data_count tab env lib self p)) \<and>
   (0 \<le> n \<and> n * 12 < 2 ^ 60 \<and>
    lib_get_current_board_data lib (c_int n) (native p) = ((st, dw, tw, cw), s') \<longrightarrow>
      (st \<noteq> 0 \<and> is_member tab st \<longrightarrow>
         raises_BrainFlowError tab st (fst (get_current_board_data tab env lib self n p))) \<and>
      (st = 0 \<and> cw = [c] \<and> 0 \<le> c \<and> c \<le> n \<longrightarrow>
         completes (fst (get_current_board_data tab env lib self n p)))) \<and>
   (lib_get_board_data_count lib (native p) = ((st1, cw1), s1) \<longrightarrow>
      (st1 \<noteq> 0 \<and> is_member tab st1 \<longrightarrow>
         raises_BrainFlowError tab st1 (fst (get_board_data tab env lib self p))) \<and>
      (st1 = 0 \<and> cw1 = [d] \<and> 0 \<le> d \<and> d * 12 < 2 ^ 60 \<longrightarrow>
         translated tab (fst (fst (lib_get_board_data lib (c_int d) s1)))
           (fst (get_board_data tab env lib self p))))"
  proof (intro conjI)
    show "translated tab (fst (lib_prepare_session lib (c_int (board_id self)) (port_name self) (native p)))
       (fst (prepare_session tab env lib self p))"
      using ok rdy by (rule prepare_session_translated)
    show "translated tab
       (fst (lib_start_stream lib (c_int (case arg of None \<Rightarrow> 3600 * 250 | Some k \<Rightarrow> k)) (native p)))
       (fst (start_stream tab env lib self arg p))"
      using ok rdy by (rule start_stream_translated)
    show "translated tab (fst (lib_stop_stream lib (native p))) (fst (stop_stream tab env lib self p))"
      using ok rdy by (rule stop_stream_translated)
    show "translated tab (fst (lib_release_session lib (native p)))
       (fst (release_session tab env lib self p))"
      using ok rdy by (rule release_session_translated)
    show "translated tab (fst (lib_set_log_level lib 2 (native p)))
       (fst (enable_board_logger tab env lib p))"
      using ok rdy by (rule loggers_translated)
    show "translated tab (fst (lib_set_log_level lib 6 (native p)))
       (fst (disable_board_logger tab env lib p))"
      using ok rdy by (rule loggers_translated)
    show "translated tab (fst (lib_set_log_level lib 0 (native p)))
       (fst (enable_dev_board_logger tab env lib p))"
      using ok rdy by (rule loggers_translated)
    show "translated tab (fst (fst (lib_get_board_data_count lib (native p))))
       (fst (get_board_data_count tab env lib self p))"
      using ok rdy by (rule get_board_data_count_translated)
    show "0 \<le> n \<and> n * 12 < 2 ^ 60 \<and>
      lib_get_current_board_data lib (c_int n) (native p) = ((st, dw, tw, cw), s') \<longrightarrow>
        (st \<noteq> 0 \<and> is_member tab st \<longrightarrow>
           raises_BrainFlowError tab st (fst (get_current_board_data tab env lib self n p))) \<and>
        (st = 0 \<and> cw = [c] \<and> 0 \<le> c \<and> c \<le> n \<longrightarrow>
           completes (fst (get_current_board_data tab env lib self n p)))"
      using cur [of n lib st dw tw cw s' c] by blast
    show "lib_get_board_data_count lib (native p) = ((st1, cw1), s1) \<longrightarrow>
        (st1 \<noteq> 0 \<and> is_member tab st1 \<longrightarrow>
           raises_BrainFlowError tab st1 (fst (get_board_data tab env lib self p))) \<and>
        (st1 = 0 \<and> cw1 = [d] \<and> 0 \<le> d \<and> d * 12 < 2 ^ 60 \<longrightarrow>
           translated tab (fst (fst (lib_get_board_data lib (c_int d) s1)))
             (fst (get_board_data tab env lib self p)))"
      using all [of lib st1 cw1 s1 d] by blast
  qed
qed

lemma show_int_13: "show_int 13 = ''13''"
  by (simp add: show_int_def digit_char_def)

lemma stop_refused:
  "fst (stop_stream codes3 env64 lib_refusing shim0 (initial_process ())) =
     Inl (BrainFlowError ''INVALID_ARGUMENTS_ERROR:13 unable to stop streaming session'' 13)"
  by (simp add: stop_stream_def call_native_def get_instance_def BoardControllerDLL_init_ok
      initial_process_def calcsize_env64 loadable_env64 lib_refusing_def scripted_lib_def check_status_def
      member_value_def member_name_def BrainFlowError_init_def codes3_def show_int_13)

theorem status_translation_witness:
  "member_value codes3 ''STATUS_OK'' = Some 0 \<and> ready env64 (initial_process ()) \<and>
   BoardShim_init codes3 0 ''COM3'' (initial_process ()) = (Inr shim0, initial_process ()) \<and>
   is_member codes3 13 \<and>
   completes (fst (stop_stream codes3 env64 lib_one shim0 (initial_process ()))) \<and>
   completes (fst (get_current_board_data codes3 env64 lib_one shim0 1 (initial_process ()))) \<and>
   completes (fst (get_board_data codes3 env64 lib_one shim0 (initial_process ()))) \<and>
   raises_BrainFlowError codes3 13
     (fst (stop_stream codes3 env64 lib_refusing shim0 (initial_process ()))) \<and>
   raises_BrainFlowError codes3 13
     (fst (get_current_board_data codes3 env64 lib_refusing shim0 1 (initial_process ()))) \<and>
   raises_BrainFlowError codes3 13
     (fst (get_board_data codes3 env64 lib_refusing shim0 (initial_process ()))) \<and>
   fst (stop_stream codes3 env64 lib_refusing shim0 (initial_process ())) =
     Inl (BrainFlowError ''INVALID_ARGUMENTS_ERROR:13 unable to stop streaming session'' 13)"
proof -
  let ?p = "initial_process ()"
  have i: "BoardShim_init codes3 0 ''COM3'' ?p = (Inr shim0, ?p)"
    by (rule shim0_init)
  have ok: "member_value codes3 ''STATUS_OK'' = Some 0"
    by (simp add: member_value_def codes3_def)
  have rdy: "ready env64 ?p"
    by (rule ready_env64)
  have mem: "is_member codes3 13"
    by (simp add: is_member_def member_name_def codes3_def)
  have one: "fst (lib_stop_stream lib_one (native ?p)) = 0"
    "lib_get_current_board_data lib_one (c_int 1) (native ?p) =
       ((0, [1, 2, 3, 4, 5, 6, 7, 8, 9, 10, 11, 12], [100], [1]), ())"
    "lib_get_board_data_count lib_one (native ?p) = ((0, [1]), ())"
    "fst (fst (lib_get_board_data lib_one (c_int 1) ())) = 0"
    by (simp_all add: lib_one_def scripted_lib_def)
  have ref: "fst (lib_stop_stream lib_refusing (native ?p)) = 13"
    "lib_get_current_board_data lib_refusing (c_int 1) (native ?p) = ((13, [], [], [0]), ())"
    "lib_get_board_data_count lib_refusing (native ?p) = ((13, [0]), ())"
    by (simp_all add: lib_refusing_def scripted_lib_def)
  note t1 = status_translation [where tab = codes3 and env = env64 and p = ?p and bid = 0
      and port = "''COM3''" and ?p0.0 = ?p and self = shim0 and ?p0' = ?p and lib = lib_one
      and n = 1 and st = 0 and dw = "[1, 2, 3, 4, 5, 6, 7, 8, 9, 10, 11, 12]" and tw = "[100]"
      and cw = "[1]" and s' = "()" and c = 1 and ?st1.0 = 0 and ?cw1.0 = "[1]" and ?s1.0 = "()"
      and d = 1]
  note t2 = status_translation [where tab = codes3 and env = env64 and p = ?p and bid = 0
      and port = "''COM3''" and ?p0.0 = ?p and self = shim0 and ?p0' = ?p and lib = lib_refusing
      and n = 1 and st = 13 and dw = "[]" and tw = "[]"
      and cw = "[0]" and s' = "()" and ?st1.0 = 13 and ?cw1.0 = "[0]" and ?s1.0 = "()"]
  have a: "completes (fst (stop_stream codes3 env64 lib_one shim0 ?p))"
    "completes (fst (get_current_board_data codes3 env64 lib_one shim0 1 ?p))"
    "completes (fst (get_board_data codes3 env64 lib_one shim0 ?p))"
    using t1 i ok rdy one by (simp_all add: translated_def)
  have b: "raises_BrainFlowError codes3 13 (fst (stop_stream codes3 env64 lib_refusing shim0 ?p))"
    "raises_BrainFlowError codes3 13
       (fst (get_current_board_data codes3 env64 lib_refusing shim0 1 ?p))"
    "raises_BrainFlowError codes3 13 (fst (get_board_data codes3 env64 lib_refusing shim0 ?p))"
    using t2 i ok rdy ref mem by (simp_all add: translated_def)
  show ?thesis
    using i ok rdy mem a b stop_refused by simp
qed

lemma negative_count:
  "fst (get_board_data codes3 env64 (scripted_lib 0 (- 1) [] ([] :: int list)) shim0
          (initial_process ())) = Inl ValueError"
  by (simp add: get_board_data_def get_board_data_count_def call_native_def get_instance_def
      BoardControllerDLL_init_ok initial_process_def calcsize_env64 loadable_env64
      scripted_lib_def shim0_def np_zeros_def poke_def check_status_def member_value_def
      codes3_def int64_def)

text \<open>
  Claim C4 as stated fails: a nonzero status that is no member of the enumeration (99
  here; by \<open>some_status_is_no_member\<close> every enumeration leaves such statuses) raises
  ValueError from the constructor of BrainFlowError, not a BrainFlowError. And status 0
  alone does not complete a data call: when the count call returns 0 and reports the count
  -1, \<^verbatim>\<open>get_board_data\<close> raises ValueError while it allocates its buffers.
\<close>

theorem unknown_status_counterexample:
  "fst (lib_stop_stream (scripted_lib 99 0 [] ([] :: int list)) (native (initial_process ()))) = 99 \<and>
   fst (stop_stream codes3 env64 (scripted_lib 99 0 [] ([] :: int list)) shim0
          (initial_process ())) = Inl ValueError \<and>
   fst (fst (lib_get_board_data_count (scripted_lib 0 (- 1) [] ([] :: int list))
               (native (initial_process ())))) = 0 \<and>
   fst (get_board_data codes3 env64 (scripted_lib 0 (- 1) [] ([] :: int list)) shim0
          (initial_process ())) = Inl ValueError"
  using outside_status negative_count by (simp add: scripted_lib_def)

end
